theory Spec2Isabelle
  imports Main
begin

section \<open>JavaScript values the two rules compute with\<close>

text \<open>
  The rules store numbers in arrays, read configuration properties that may be
  absent, and compare numbers with possibly absent values.  A value is therefore
  \<open>undefined\<close>, \<open>NaN\<close> or a non-negative integer (the option schema admits only
  integers \<open>\<ge> 0\<close>, and the counters only ever add to \<open>0\<close>).
\<close>

datatype jsnum = Undefined | NaN | Num nat

text \<open>ToBoolean: \<open>undefined\<close>, \<open>NaN\<close> and \<open>0\<close> are falsy.\<close>

fun truthy :: "jsnum \<Rightarrow> bool" where
  "truthy Undefined = False"
| "truthy NaN = False"
| "truthy (Num n) = (n \<noteq> 0)"

text \<open>\<open>a || b\<close>: the left operand when it is truthy, otherwise the right operand.\<close>

definition js_or :: "jsnum \<Rightarrow> jsnum \<Rightarrow> jsnum" where
  "js_or a b = (if truthy a then a else b)"

text \<open>\<open>a > b\<close>: \<open>undefined\<close> converts to \<open>NaN\<close>, and every comparison with \<open>NaN\<close> is false.\<close>

fun js_gt :: "jsnum \<Rightarrow> jsnum \<Rightarrow> bool" where
  "js_gt (Num a) (Num b) = (a > b)"
| "js_gt _ _ = False"

text \<open>\<open>x + n\<close> for a number \<open>n\<close>: \<open>undefined + n\<close> and \<open>NaN + n\<close> are \<open>NaN\<close>.\<close>

fun js_add :: "jsnum \<Rightarrow> nat \<Rightarrow> jsnum" where
  "js_add (Num a) n = Num (a + n)"
| "js_add _ n = NaN"

text \<open>
  An array of numbers as the rules use it: \<open>push(0)\<close>, \<open>pop()\<close>, \<open>length\<close> and an
  update of the element at index \<open>length - 1\<close>.  The list \<open>elems\<close> is kept newest
  first, so the element at index \<open>length - 1\<close> is its head.  On an empty array the
  index \<open>length - 1\<close> is \<open>-1\<close>, which is not an array index: the read yields the
  property named \<open>-1\<close> (\<open>undefined\<close> until written) and the write stores that
  property without changing \<open>length\<close> or any element.  \<open>minus1\<close> holds it.
\<close>

record jsarray =
  elems :: "nat list"
  minus1 :: jsnum

definition empty_array :: jsarray where
  "empty_array = \<lparr>elems = [], minus1 = Undefined\<rparr>"

definition push0 :: "jsarray \<Rightarrow> jsarray" where
  "push0 a = a\<lparr>elems := 0 # elems a\<rparr>"

text \<open>\<open>pop()\<close> returns \<open>undefined\<close> on an empty array and leaves it as it is.\<close>

definition pop :: "jsarray \<Rightarrow> jsnum \<times> jsarray" where
  "pop a = (case elems a of
              [] \<Rightarrow> (Undefined, a)
            | x # xs \<Rightarrow> (Num x, a\<lparr>elems := xs\<rparr>))"

definition array_length :: "jsarray \<Rightarrow> nat" where
  "array_length a = length (elems a)"

text \<open>\<open>a[a.length - 1] += n\<close>\<close>

definition add_to_last :: "nat \<Rightarrow> jsarray \<Rightarrow> jsarray" where
  "add_to_last n a = (case elems a of
                        [] \<Rightarrow> a\<lparr>minus1 := js_add (minus1 a) n\<rparr>
                      | x # xs \<Rightarrow> a\<lparr>elems := (x + n) # xs\<rparr>)"

text \<open>
  The first rule option, as the schema admits it: absent, an integer \<open>\<ge> 0\<close>, or an
  object whose properties \<open>maximum\<close>, \<open>max\<close> (integers \<open>\<ge> 0\<close>) and \<open>variant\<close> may
  each be absent.
\<close>

datatype rule_option =
    NoOption
  | NumberOption nat
  | ObjectOption (opt_maximum: "nat option") (opt_max: "nat option") (opt_variant: "string option")

text \<open>Reading a property that may be absent.\<close>

fun property :: "nat option \<Rightarrow> jsnum" where
  "property None = Undefined"
| "property (Some n) = Num n"

text \<open>
  The helpers of \<open>ast-utils\<close> and \<open>string-utils\<close> that name a node in a report are
  not part of the sources; the rules take them as parameters.
\<close>

record 'n host =
  getFunctionNameWithKind :: "'n \<Rightarrow> string"
  upperCaseFirst :: "string \<Rightarrow> string"


section \<open>The statement counter (\<open>max-statements\<close>, src/unnamed/part_002)\<close>

text \<open>
  A syntax node as the rule reads it: its \<open>type\<close> and its child nodes in document
  order.  For a \<open>BlockStatement\<close> the children are the statements of \<open>node.body\<close>.
\<close>

datatype ast = Node (node_type: string) (node_body: "ast list")

record ms_report =
  ms_node :: ast
  ms_messageId :: string
  ms_name :: string
  ms_count :: jsnum
  ms_max :: jsnum

record ms_state =
  ms_functionStack :: jsarray
  topLevelFunctions :: "(ast \<times> jsnum) list"
  ms_reports :: "ms_report list"

record ms_config =
  maxStatements :: jsnum
  ignoreTopLevelFunctions :: bool

text \<open>
  \<open>create\<close>, lines 74--90: \<open>ignoreTopLevelFunctions\<close> is
  \<open>(options[1] && options[1].ignoreTopLevelFunctions) || false\<close>; the second option is
  absent, or an object whose boolean property may be absent.
\<close>

fun ignore_of :: "bool option option \<Rightarrow> bool" where
  "ignore_of None = False"
| "ignore_of (Some None) = False"
| "ignore_of (Some (Some b)) = b"

definition maxStatements_of :: "rule_option \<Rightarrow> jsnum" where
  "maxStatements_of option =
     (case option of
        ObjectOption mx m v \<Rightarrow>
          if mx \<noteq> None \<or> m \<noteq> None then js_or (property mx) (property m) else Num 10
      | NumberOption n \<Rightarrow> Num n
      | NoOption \<Rightarrow> Num 10)"

definition create_max_statements :: "rule_option \<Rightarrow> bool option option \<Rightarrow> ms_config" where
  "create_max_statements option option1 =
     \<lparr>maxStatements = maxStatements_of option, ignoreTopLevelFunctions = ignore_of option1\<rparr>"

definition ms_initial :: ms_state where
  "ms_initial = \<lparr>ms_functionStack = empty_array, topLevelFunctions = [], ms_reports = []\<rparr>"

definition reportIfTooManyStatements ::
  "ast host \<Rightarrow> ast \<Rightarrow> jsnum \<Rightarrow> jsnum \<Rightarrow> ms_state \<Rightarrow> ms_state" where
  "reportIfTooManyStatements h node count mx s =
     (if js_gt count mx
      then s\<lparr>ms_reports := ms_reports s @
               [\<lparr>ms_node = node, ms_messageId = ''exceed'',
                 ms_name = upperCaseFirst h (getFunctionNameWithKind h node),
                 ms_count = count, ms_max = mx\<rparr>]\<rparr>
      else s)"

definition startFunction :: "ms_state \<Rightarrow> ms_state" where
  "startFunction s = s\<lparr>ms_functionStack := push0 (ms_functionStack s)\<rparr>"

definition endFunction :: "ast host \<Rightarrow> ms_config \<Rightarrow> ast \<Rightarrow> ms_state \<Rightarrow> ms_state" where
  "endFunction h cfg node s =
     (let (count, stack) = pop (ms_functionStack s);
          s1 = s\<lparr>ms_functionStack := stack\<rparr>
      in if node_type node = ''StaticBlock'' then s1
         else if ignoreTopLevelFunctions cfg \<and> array_length stack = 0
              then s1\<lparr>topLevelFunctions := topLevelFunctions s1 @ [(node, count)]\<rparr>
              else reportIfTooManyStatements h node count (maxStatements cfg) s1)"

definition countStatements :: "ast \<Rightarrow> ms_state \<Rightarrow> ms_state" where
  "countStatements node s =
     s\<lparr>ms_functionStack := add_to_last (length (node_body node)) (ms_functionStack s)\<rparr>"

text \<open>The \<open>forEach\<close> of \<open>Program:exit\<close>, in array order.\<close>

fun report_each :: "ast host \<Rightarrow> ms_config \<Rightarrow> (ast \<times> jsnum) list \<Rightarrow> ms_state \<Rightarrow> ms_state" where
  "report_each h cfg [] s = s"
| "report_each h cfg ((node, count) # rest) s =
     report_each h cfg rest (reportIfTooManyStatements h node count (maxStatements cfg) s)"

definition Program_exit :: "ast host \<Rightarrow> ms_config \<Rightarrow> ms_state \<Rightarrow> ms_state" where
  "Program_exit h cfg s =
     (if length (topLevelFunctions s) = 1 then s
      else report_each h cfg (topLevelFunctions s) s)"

text \<open>
  The visitor object: the traversal enters and leaves each node and calls the
  handler registered for the node's type, if there is one.
\<close>

datatype ms_event = Enter ast | Exit ast

definition is_function_like :: "string \<Rightarrow> bool" where
  "is_function_like t \<longleftrightarrow>
     t = ''FunctionDeclaration'' \<or> t = ''FunctionExpression'' \<or>
     t = ''ArrowFunctionExpression'' \<or> t = ''StaticBlock''"

fun ms_visit :: "ast host \<Rightarrow> ms_config \<Rightarrow> ms_event \<Rightarrow> ms_state \<Rightarrow> ms_state" where
  "ms_visit h cfg (Enter node) s =
     (if is_function_like (node_type node) then startFunction s
      else if node_type node = ''BlockStatement'' then countStatements node s
      else s)"
| "ms_visit h cfg (Exit node) s =
     (if is_function_like (node_type node) then endFunction h cfg node s
      else if node_type node = ''Program'' then Program_exit h cfg s
      else s)"

fun ms_run :: "ast host \<Rightarrow> ms_config \<Rightarrow> ms_event list \<Rightarrow> ms_state \<Rightarrow> ms_state" where
  "ms_run h cfg [] s = s"
| "ms_run h cfg (e # es) s = ms_run h cfg es (ms_visit h cfg e s)"

text \<open>
  Modelled from the spec: the traversal driver, which is not part of the sources,
  ``invokes visitor callbacks in document order'': a node is entered, its children
  are traversed in order, and the node is left.
\<close>

fun traverse :: "ast \<Rightarrow> ms_event list"
  and traverse_all :: "ast list \<Rightarrow> ms_event list" where
  "traverse (Node t body) = Enter (Node t body) # traverse_all body @ [Exit (Node t body)]"
| "traverse_all [] = []"
| "traverse_all (n # ns) = traverse n @ traverse_all ns"

text \<open>Analysing a whole program with a fresh state.\<close>

definition max_statements :: "ast host \<Rightarrow> rule_option \<Rightarrow> bool option option \<Rightarrow> ast \<Rightarrow> ms_report list" where
  "max_statements h option option1 program =
     ms_reports (ms_run h (create_max_statements option option1) (traverse program) ms_initial)"


section \<open>The complexity counter (src/lib/rules/complexity.js and src/unnamed/part_001)\<close>

text \<open>
  The sources hold the rule twice.  src/unnamed/part_001 is
  src/lib/rules/complexity.js with three additions: a stack of function
  identifiers, an \<open>IfStatement\<close> handler that looks at the \<open>else\<close> branch, and a
  \<open>CallExpression\<close> handler.  Everything else is the same text, modelled once; the
  definitions that differ carry the suffix \<open>_lib\<close> for src/lib/rules/complexity.js.
\<close>

text \<open>
  The nodes the handlers look into: an \<open>Identifier\<close> or \<open>PrivateIdentifier\<close>
  with its \<open>name\<close>, a \<open>MemberExpression\<close> with its \<open>object\<close> and \<open>property\<close>, a
  \<open>LogicalExpression\<close> with its \<open>operator\<close>, \<open>left\<close> and \<open>right\<close>, and nodes of
  other types (patterns, literals, calls, ...), of which only the type is read.
\<close>

datatype expr =
    Identifier string
  | PrivateIdentifier string
  | MemberExpression expr expr
  | LogicalExpression string expr expr
  | OtherExpression string

text \<open>
  The tests \<open>node.type === "Identifier"\<close>, \<open>"MemberExpression"\<close> and
  \<open>"LogicalExpression"\<close> are tests for the constructor; \<open>OtherExpression t\<close> is a
  node of any other type \<open>t\<close>.
\<close>

fun is_Identifier :: "expr \<Rightarrow> bool" where
  "is_Identifier (Identifier n) = True"
| "is_Identifier e = False"

fun is_LogicalExpression :: "expr \<Rightarrow> bool" where
  "is_LogicalExpression (LogicalExpression op l r) = True"
| "is_LogicalExpression e = False"

text \<open>\<open>node.name\<close>: \<open>undefined\<close> (\<open>None\<close>) on a node that has no such property.\<close>

fun expr_name :: "expr \<Rightarrow> string option" where
  "expr_name (Identifier n) = Some n"
| "expr_name (PrivateIdentifier n) = Some n"
| "expr_name _ = None"

text \<open>
  The parent of a function node, as \<open>getFunctionIdentifier\<close> reads it: a
  \<open>VariableDeclarator\<close> with its \<open>id\<close>, an \<open>AssignmentExpression\<close> with its \<open>left\<close>,
  a \<open>Property\<close> with its \<open>key\<close>, or a node of another type.
\<close>

datatype parent_node =
    Parent_VariableDeclarator expr
  | Parent_AssignmentExpression expr
  | Parent_Property expr
  | Parent_Other string

record func_node =
  func_type :: string
  func_id :: "expr option"
  func_parent :: "parent_node option"

record c_report =
  c_node :: func_node
  c_messageId :: string
  c_name :: string
  c_complexity :: jsnum
  c_max :: jsnum

record c_state =
  complexities :: jsarray
  functionStack :: "expr option list"
  c_reports :: "c_report list"

definition c_initial :: c_state where
  "c_initial = \<lparr>complexities = empty_array, functionStack = [], c_reports = []\<rparr>"

definition THRESHOLD_DEFAULT :: nat where
  "THRESHOLD_DEFAULT = 20"

text \<open>\<open>create\<close>, lines 71--83 of both files.\<close>

definition threshold_of :: "rule_option \<Rightarrow> jsnum" where
  "threshold_of option =
     (case option of
        ObjectOption mx m v \<Rightarrow>
          if mx \<noteq> None \<or> m \<noteq> None then js_or (property mx) (property m)
          else Num THRESHOLD_DEFAULT
      | NumberOption n \<Rightarrow> Num n
      | NoOption \<Rightarrow> Num THRESHOLD_DEFAULT)"

definition increaseComplexity :: "c_state \<Rightarrow> c_state" where
  "increaseComplexity s = s\<lparr>complexities := add_to_last 1 (complexities s)\<rparr>"

text \<open>\<open>node.parent && node.parent.type === "LogicalExpression"\<close>, from the parent's type.\<close>

fun hasLogicalExpressionParent :: "string option \<Rightarrow> bool" where
  "hasLogicalExpressionParent None = False"
| "hasLogicalExpressionParent (Some t) = (t = ''LogicalExpression'')"

text \<open>
  \<open>countLogicalOperatorSequences(node, currentOp, sequences)\<close>: \<open>sequences.count\<close> is
  passed in and returned.  The function is only ever called on a
  \<open>LogicalExpression\<close> (the handler's node, and operands whose type was tested), so
  the last equation is never used.
\<close>

fun countLogicalOperatorSequences :: "expr \<Rightarrow> string option \<Rightarrow> nat \<Rightarrow> nat" where
  "countLogicalOperatorSequences (LogicalExpression op l r) currentOp count =
     (let c1 = (if currentOp = None \<or> currentOp \<noteq> Some op then count + 1 else count);
          c2 = (if is_LogicalExpression l
                then countLogicalOperatorSequences l (Some op) c1 else c1)
      in if is_LogicalExpression r
         then countLogicalOperatorSequences r (Some op) c2 else c2)"
| "countLogicalOperatorSequences e currentOp count = count"

text \<open>\<open>getFunctionIdentifier\<close> (part_001, lines 154--194).\<close>

definition getFunctionIdentifier :: "func_node \<Rightarrow> expr option" where
  "getFunctionIdentifier node =
     (case func_id node of
        Some i \<Rightarrow> Some i
      | None \<Rightarrow>
         (case func_parent node of
            Some (Parent_VariableDeclarator i) \<Rightarrow> Some i
          | Some (Parent_AssignmentExpression l) \<Rightarrow>
              if is_Identifier l then Some l
              else (case l of
                      MemberExpression obj prop \<Rightarrow>
                        if is_Identifier prop then Some prop else None
                    | _ \<Rightarrow> None)
          | Some (Parent_Property k) \<Rightarrow>
              if is_Identifier k then Some k else None
          | _ \<Rightarrow> None))"

text \<open>
  The nodes that have a handler, with what the handler reads of them: the type of
  an \<open>IfStatement\<close>'s \<open>alternate\<close> (\<open>None\<close> for \<open>null\<close>), the \<open>callee\<close> of a
  \<open>CallExpression\<close>, the \<open>test\<close> of each of a \<open>SwitchStatement\<close>'s \<open>cases\<close> (\<open>None\<close>
  for \<open>null\<close>), the parent's type, \<open>operator\<close>, \<open>left\<close> and \<open>right\<close> of a
  \<open>LogicalExpression\<close>, and the \<open>operator\<close> of an \<open>AssignmentExpression\<close>.
  \<open>SwitchCase_test\<close> is a node matched by the selector \<open>SwitchCase[test]\<close>;
  \<open>OtherNode\<close> is a node of a type without a handler.
\<close>

datatype visited =
    CatchClause
  | ConditionalExpression
  | ForStatement
  | ForInStatement
  | ForOfStatement
  | WhileStatement
  | DoWhileStatement
  | IfStatement "string option"
  | CallExpression expr
  | SwitchStatement "expr option list"
  | SwitchCase_test
  | LogicalExpressionNode "string option" string expr expr
  | AssignmentExpression string
  | OtherNode string

text \<open>\<open>IfStatement\<close> of part_001 (lines 224--231); \<open>alternate\<close> is the type of the
  \<open>else\<close> branch, \<open>None\<close> when \<open>node.alternate\<close> is \<open>null\<close>.\<close>

definition on_IfStatement :: "string option \<Rightarrow> c_state \<Rightarrow> c_state" where
  "on_IfStatement alt s =
     (let s1 = increaseComplexity s
      in case alt of
           None \<Rightarrow> s1
         | Some t \<Rightarrow> if t \<noteq> ''IfStatement'' then increaseComplexity s1 else s1)"

text \<open>\<open>IfStatement: increaseComplexity\<close> of src/lib/rules/complexity.js (line 161).\<close>

definition on_IfStatement_lib :: "string option \<Rightarrow> c_state \<Rightarrow> c_state" where
  "on_IfStatement_lib alt s = increaseComplexity s"

text \<open>\<open>functionStack.at(-1)\<close>: \<open>undefined\<close> on an empty array, falsy like \<open>null\<close>.\<close>

fun at_last :: "expr option list \<Rightarrow> expr option" where
  "at_last [] = None"
| "at_last (x # xs) = x"

text \<open>\<open>CallExpression\<close> of part_001 (lines 234--258).\<close>

definition on_CallExpression :: "expr \<Rightarrow> c_state \<Rightarrow> c_state" where
  "on_CallExpression callee s =
     (case at_last (functionStack s) of
        None \<Rightarrow> s
      | Some currentFunctionIdentifier \<Rightarrow>
          if is_Identifier callee \<and>
             expr_name callee = expr_name currentFunctionIdentifier
          then increaseComplexity s
          else (case callee of
                  MemberExpression obj prop \<Rightarrow>
                    if is_Identifier prop \<and>
                       is_Identifier currentFunctionIdentifier \<and>
                       expr_name prop = expr_name currentFunctionIdentifier
                    then increaseComplexity s else s
                | _ \<Rightarrow> s))"

definition on_SwitchStatement :: "expr option list \<Rightarrow> c_state \<Rightarrow> c_state" where
  "on_SwitchStatement cs s =
     (let s1 = increaseComplexity s
      in if list_ex (\<lambda>test. test = None) cs then increaseComplexity s1 else s1)"

text \<open>The loop \<open>for (i = 0; i < sequences.count; i++) increaseComplexity()\<close>.\<close>

fun increase_times :: "nat \<Rightarrow> c_state \<Rightarrow> c_state" where
  "increase_times 0 s = s"
| "increase_times (Suc n) s = increase_times n (increaseComplexity s)"

definition on_LogicalExpression :: "string option \<Rightarrow> string \<Rightarrow> expr \<Rightarrow> expr \<Rightarrow> c_state \<Rightarrow> c_state" where
  "on_LogicalExpression parent op l r s =
     (if hasLogicalExpressionParent parent then s
      else increase_times (countLogicalOperatorSequences (LogicalExpression op l r) None 0) s)"

text \<open>
  Modelled from the spec: \<open>astUtils.isLogicalAssignmentOperator\<close>, which is not part
  of the sources; the spec names the ``logical short-circuit assignment operators
  (\<open>&&=\<close>, \<open>||=\<close>, \<open>??=\<close>)''.
\<close>

definition isLogicalAssignmentOperator :: "string \<Rightarrow> bool" where
  "isLogicalAssignmentOperator op \<longleftrightarrow> op = ''&&='' \<or> op = ''||='' \<or> op = ''??=''"

definition on_AssignmentExpression :: "string \<Rightarrow> c_state \<Rightarrow> c_state" where
  "on_AssignmentExpression op s =
     (if isLogicalAssignmentOperator op then increaseComplexity s else s)"

text \<open>\<open>onCodePathStart\<close> of part_001 (lines 201--213) and of
  src/lib/rules/complexity.js (lines 150--153).\<close>

definition onCodePathStart :: "string \<Rightarrow> func_node \<Rightarrow> c_state \<Rightarrow> c_state" where
  "onCodePathStart origin node s =
     (let s1 = s\<lparr>complexities := push0 (complexities s)\<rparr>
      in if origin = ''function''
         then s1\<lparr>functionStack := getFunctionIdentifier node # functionStack s1\<rparr>
         else s1\<lparr>functionStack := None # functionStack s1\<rparr>)"

definition onCodePathStart_lib :: "string \<Rightarrow> func_node \<Rightarrow> c_state \<Rightarrow> c_state" where
  "onCodePathStart_lib origin node s = s\<lparr>complexities := push0 (complexities s)\<rparr>"

text \<open>The part of \<open>onCodePathEnd\<close> after the stacks are popped (the same in both files).\<close>

definition report_complexity ::
  "func_node host \<Rightarrow> jsnum \<Rightarrow> string \<Rightarrow> func_node \<Rightarrow> jsnum \<Rightarrow> c_state \<Rightarrow> c_state" where
  "report_complexity h threshold origin node complexity s =
     (if origin \<noteq> ''function'' \<and> origin \<noteq> ''class-field-initializer'' \<and>
         origin \<noteq> ''class-static-block''
      then s
      else if threshold = Num 0 \<or> js_gt complexity threshold
      then (let name = (if origin = ''class-field-initializer'' then ''class field initializer''
                        else if origin = ''class-static-block'' then ''class static block''
                        else getFunctionNameWithKind h node)
            in s\<lparr>c_reports := c_reports s @
                   [\<lparr>c_node = node, c_messageId = ''complex'',
                     c_name = upperCaseFirst h name,
                     c_complexity = complexity, c_max = threshold\<rparr>]\<rparr>)
      else s)"

definition onCodePathEnd ::
  "func_node host \<Rightarrow> jsnum \<Rightarrow> string \<Rightarrow> func_node \<Rightarrow> c_state \<Rightarrow> c_state" where
  "onCodePathEnd h threshold origin node s =
     (let (complexity, stack) = pop (complexities s);
          s1 = s\<lparr>complexities := stack, functionStack := tl (functionStack s)\<rparr>
      in report_complexity h threshold origin node complexity s1)"

definition onCodePathEnd_lib ::
  "func_node host \<Rightarrow> jsnum \<Rightarrow> string \<Rightarrow> func_node \<Rightarrow> c_state \<Rightarrow> c_state" where
  "onCodePathEnd_lib h threshold origin node s =
     (let (complexity, stack) = pop (complexities s);
          s1 = s\<lparr>complexities := stack\<rparr>
      in report_complexity h threshold origin node complexity s1)"

text \<open>The events the host delivers, and the two visitor objects.\<close>

datatype c_event =
    CodePathStart string func_node
  | CodePathEnd string func_node
  | Visit visited

fun c_visit :: "func_node host \<Rightarrow> jsnum \<Rightarrow> c_event \<Rightarrow> c_state \<Rightarrow> c_state" where
  "c_visit h th (CodePathStart origin node) s = onCodePathStart origin node s"
| "c_visit h th (CodePathEnd origin node) s = onCodePathEnd h th origin node s"
| "c_visit h th (Visit CatchClause) s = increaseComplexity s"
| "c_visit h th (Visit ConditionalExpression) s = increaseComplexity s"
| "c_visit h th (Visit ForStatement) s = increaseComplexity s"
| "c_visit h th (Visit ForInStatement) s = increaseComplexity s"
| "c_visit h th (Visit ForOfStatement) s = increaseComplexity s"
| "c_visit h th (Visit WhileStatement) s = increaseComplexity s"
| "c_visit h th (Visit DoWhileStatement) s = increaseComplexity s"
| "c_visit h th (Visit (IfStatement alt)) s = on_IfStatement alt s"
| "c_visit h th (Visit (CallExpression c)) s = on_CallExpression c s"
| "c_visit h th (Visit (SwitchStatement cs)) s = on_SwitchStatement cs s"
| "c_visit h th (Visit SwitchCase_test) s = s"
| "c_visit h th (Visit (LogicalExpressionNode p op l r)) s = on_LogicalExpression p op l r s"
| "c_visit h th (Visit (AssignmentExpression op)) s = on_AssignmentExpression op s"
| "c_visit h th (Visit (OtherNode t)) s = s"

fun c_visit_lib :: "func_node host \<Rightarrow> jsnum \<Rightarrow> c_event \<Rightarrow> c_state \<Rightarrow> c_state" where
  "c_visit_lib h th (CodePathStart origin node) s = onCodePathStart_lib origin node s"
| "c_visit_lib h th (CodePathEnd origin node) s = onCodePathEnd_lib h th origin node s"
| "c_visit_lib h th (Visit CatchClause) s = increaseComplexity s"
| "c_visit_lib h th (Visit ConditionalExpression) s = increaseComplexity s"
| "c_visit_lib h th (Visit ForStatement) s = increaseComplexity s"
| "c_visit_lib h th (Visit ForInStatement) s = increaseComplexity s"
| "c_visit_lib h th (Visit ForOfStatement) s = increaseComplexity s"
| "c_visit_lib h th (Visit (IfStatement alt)) s = on_IfStatement_lib alt s"
| "c_visit_lib h th (Visit WhileStatement) s = increaseComplexity s"
| "c_visit_lib h th (Visit DoWhileStatement) s = increaseComplexity s"
| "c_visit_lib h th (Visit (CallExpression c)) s = s"
| "c_visit_lib h th (Visit (SwitchStatement cs)) s = on_SwitchStatement cs s"
| "c_visit_lib h th (Visit SwitchCase_test) s = s"
| "c_visit_lib h th (Visit (LogicalExpressionNode p op l r)) s = on_LogicalExpression p op l r s"
| "c_visit_lib h th (Visit (AssignmentExpression op)) s = on_AssignmentExpression op s"
| "c_visit_lib h th (Visit (OtherNode t)) s = s"

fun c_run :: "func_node host \<Rightarrow> jsnum \<Rightarrow> c_event list \<Rightarrow> c_state \<Rightarrow> c_state" where
  "c_run h th [] s = s"
| "c_run h th (e # es) s = c_run h th es (c_visit h th e s)"

fun c_run_lib :: "func_node host \<Rightarrow> jsnum \<Rightarrow> c_event list \<Rightarrow> c_state \<Rightarrow> c_state" where
  "c_run_lib h th [] s = s"
| "c_run_lib h th (e # es) s = c_run_lib h th es (c_visit_lib h th e s)"

text \<open>Analysing the events of one document with a fresh state.\<close>

definition complexity :: "func_node host \<Rightarrow> rule_option \<Rightarrow> c_event list \<Rightarrow> c_report list" where
  "complexity h option events = c_reports (c_run h (threshold_of option) events c_initial)"

definition complexity_lib :: "func_node host \<Rightarrow> rule_option \<Rightarrow> c_event list \<Rightarrow> c_report list" where
  "complexity_lib h option events = c_reports (c_run_lib h (threshold_of option) events c_initial)"

section \<open>Notions used to state the properties\<close>

subsection \<open>Statement counter\<close>

text \<open>
  The statements a node contributes to the function-like unit that encloses it:
  the immediate statement count of every \<open>BlockStatement\<close> at or below the node,
  not looking into nested function-like units (they have an accumulator of their
  own).
\<close>

fun own_statements :: "ast \<Rightarrow> nat"
  and own_statements_all :: "ast list \<Rightarrow> nat" where
  "own_statements (Node t body) =
     (if is_function_like t then 0
      else (if t = ''BlockStatement'' then length body else 0) + own_statements_all body)"
| "own_statements_all [] = 0"
| "own_statements_all (n # ns) = own_statements n + own_statements_all ns"

text \<open>The sum over the blocks entered while the unit \<open>f\<close> is the innermost open one.\<close>

definition unit_count :: "ast \<Rightarrow> nat" where
  "unit_count f = own_statements_all (node_body f)"

text \<open>
  A node below which no handler of the rule fires: no block, no function-like
  unit (and not the program itself).
\<close>

fun plain :: "ast \<Rightarrow> bool"
  and plain_all :: "ast list \<Rightarrow> bool" where
  "plain (Node t body) \<longleftrightarrow>
     \<not> is_function_like t \<and> t \<noteq> ''BlockStatement'' \<and> t \<noteq> ''Program'' \<and> plain_all body"
| "plain_all [] \<longleftrightarrow> True"
| "plain_all (n # ns) \<longleftrightarrow> plain n \<and> plain_all ns"

text \<open>The violation \<open>reportIfTooManyStatements\<close> emits for a node and a count.\<close>

definition exceed_report :: "ast host \<Rightarrow> ms_config \<Rightarrow> ast \<Rightarrow> jsnum \<Rightarrow> ms_report" where
  "exceed_report h cfg node count =
     \<lparr>ms_node = node, ms_messageId = ''exceed'',
      ms_name = upperCaseFirst h (getFunctionNameWithKind h node),
      ms_count = count, ms_max = maxStatements cfg\<rparr>"

text \<open>
  The value \<open>functionStack.pop()\<close> returns in \<open>endFunction\<close> when the traversal
  leaves \<open>f\<close>: the stack after \<open>f\<close> was entered and its children were traversed.
\<close>

definition count_at_close :: "ast host \<Rightarrow> ms_config \<Rightarrow> ast \<Rightarrow> ms_state \<Rightarrow> jsnum" where
  "count_at_close h cfg f s =
     fst (pop (ms_functionStack (ms_run h cfg (Enter f # traverse_all (node_body f)) s)))"

text \<open>Two states with the same accumulators, deferred units and reports.\<close>

definition same_counts :: "ms_state \<Rightarrow> ms_state \<Rightarrow> bool" where
  "same_counts a b \<longleftrightarrow>
     elems (ms_functionStack a) = elems (ms_functionStack b) \<and>
     topLevelFunctions a = topLevelFunctions b \<and>
     ms_reports a = ms_reports b"

text \<open>The deferred units whose count exceeds \<open>maxStatements\<close>.\<close>

definition exceeding :: "ms_config \<Rightarrow> (ast \<times> jsnum) list \<Rightarrow> (ast \<times> jsnum) list" where
  "exceeding cfg ds = filter (\<lambda>(node, count). js_gt count (maxStatements cfg)) ds"

text \<open>Example programs: a statement, and a function declaration with a given body.\<close>

definition stmt :: ast where
  "stmt = Node ''ExpressionStatement'' []"

definition function_of :: "ast list \<Rightarrow> ast" where
  "function_of stmts = Node ''FunctionDeclaration'' [Node ''BlockStatement'' stmts]"

subsection \<open>Complexity counter\<close>

text \<open>Adding \<open>k\<close> to the accumulator of the innermost open logical unit.\<close>

definition add_score :: "nat \<Rightarrow> c_state \<Rightarrow> c_state" where
  "add_score k s =
     (case elems (complexities s) of
        [] \<Rightarrow> s
      | c # st \<Rightarrow> s\<lparr>complexities := (complexities s)\<lparr>elems := (c + k) # st\<rparr>\<rparr>)"

text \<open>
  The scan of the operand tree of a logical expression: every logical node with
  the operator propagated to it from its ancestor (none for the first node).  A
  node starts a run when its operator differs from the propagated one; otherwise
  it merges into its ancestor's run.
\<close>

fun logical_nodes :: "expr \<Rightarrow> string option \<Rightarrow> (string option \<times> string) list" where
  "logical_nodes (LogicalExpression op l r) cur =
     (cur, op) # logical_nodes l (Some op) @ logical_nodes r (Some op)"
| "logical_nodes e cur = []"

fun starts_run :: "string option \<times> string \<Rightarrow> bool" where
  "starts_run (cur, op) \<longleftrightarrow> cur \<noteq> Some op"

definition runs :: "expr \<Rightarrow> nat" where
  "runs e = length (filter starts_run (logical_nodes e None))"

text \<open>
  Modelled from the spec: the traversal driver, which is not part of the sources,
  visits a logical expression and then its operands in document order, each with
  its parent link.  These are the \<open>LogicalExpression\<close> events it delivers for the
  logical nodes of one chain whose outermost node has a parent of type \<open>parent\<close>.
\<close>

fun logical_visits :: "string option \<Rightarrow> expr \<Rightarrow> c_event list" where
  "logical_visits parent (LogicalExpression op l r) =
     Visit (LogicalExpressionNode parent op l r) #
       logical_visits (Some ''LogicalExpression'') l @ logical_visits (Some ''LogicalExpression'') r"
| "logical_visits parent e = []"

text \<open>The expressions \<open>a && b && c\<close>, \<open>a && b && c || d || e\<close> and \<open>a && b || c && d\<close>.\<close>

definition and_and :: expr where
  "and_and =
     LogicalExpression ''&&''
       (LogicalExpression ''&&'' (Identifier ''a'') (Identifier ''b''))
       (Identifier ''c'')"

definition and_and_or_or :: expr where
  "and_and_or_or =
     LogicalExpression ''||''
       (LogicalExpression ''||'' and_and (Identifier ''d''))
       (Identifier ''e'')"

definition and_or_and :: expr where
  "and_or_and =
     LogicalExpression ''||''
       (LogicalExpression ''&&'' (Identifier ''a'') (Identifier ''b''))
       (LogicalExpression ''&&'' (Identifier ''c'') (Identifier ''d''))"

text \<open>A state with one open logical unit whose score is still \<open>0\<close>.\<close>

definition one_open :: c_state where
  "one_open =
     \<lparr>complexities = \<lparr>elems = [0], minus1 = Undefined\<rparr>, functionStack = [None], c_reports = []\<rparr>"

subsection \<open>Reports and example documents\<close>

text \<open>The origins whose logical units the rule reports.\<close>

definition reportable :: "string \<Rightarrow> bool" where
  "reportable origin \<longleftrightarrow>
     origin = ''function'' \<or> origin = ''class-field-initializer'' \<or>
     origin = ''class-static-block''"

text \<open>The violation \<open>onCodePathEnd\<close> emits for a logical unit and a score.\<close>

definition complex_report ::
  "func_node host \<Rightarrow> jsnum \<Rightarrow> string \<Rightarrow> func_node \<Rightarrow> jsnum \<Rightarrow> c_report" where
  "complex_report h threshold origin node c =
     \<lparr>c_node = node, c_messageId = ''complex'',
      c_name = upperCaseFirst h
        (if origin = ''class-field-initializer'' then ''class field initializer''
         else if origin = ''class-static-block'' then ''class static block''
         else getFunctionNameWithKind h node),
      c_complexity = c, c_max = threshold\<rparr>"

text \<open>
  Example documents.  \<open>unhandled\<close> are visits of nodes whose type has no handler;
  \<open>only_return f\<close> are the events of \<open>function f() { return true; }\<close>;
  \<open>in_program\<close> wraps events in the logical unit of the program.
\<close>

definition program_node :: func_node where
  "program_node = \<lparr>func_type = ''Program'', func_id = None, func_parent = None\<rparr>"

definition named_function :: "string \<Rightarrow> func_node" where
  "named_function n =
     \<lparr>func_type = ''FunctionDeclaration'', func_id = Some (Identifier n),
      func_parent = Some (Parent_Other ''Program'')\<rparr>"

definition unhandled :: "string list \<Rightarrow> c_event list" where
  "unhandled ts = map (\<lambda>t. Visit (OtherNode t)) ts"

definition only_return :: "func_node \<Rightarrow> c_event list" where
  "only_return f =
     CodePathStart ''function'' f #
       unhandled [''FunctionDeclaration'', ''Identifier'', ''BlockStatement'',
                  ''ReturnStatement'', ''Literal''] @
     [CodePathEnd ''function'' f]"

definition in_program :: "c_event list \<Rightarrow> c_event list" where
  "in_program es =
     CodePathStart ''program'' program_node # es @ [CodePathEnd ''program'' program_node]"

text \<open>
  An else-if chain of \<open>n + 1\<close> \<open>if\<close> statements, the last with the alternate
  \<open>final\<close>; the statement \<open>if (a) { } else { }\<close>; and the function
  \<open>function oneIfElse(a) { if (a) { return true; } else { return false; } }\<close>
  of the rule's tests.
\<close>

fun else_if_chain :: "nat \<Rightarrow> string option \<Rightarrow> c_event list" where
  "else_if_chain 0 final = [Visit (IfStatement final)]"
| "else_if_chain (Suc n) final =
     Visit (IfStatement (Some ''IfStatement'')) # else_if_chain n final"

definition if_else :: "c_event list" where
  "if_else = [Visit (IfStatement (Some ''BlockStatement''))]"

definition one_if_else :: "c_event list" where
  "one_if_else =
     in_program
       (CodePathStart ''function'' (named_function ''oneIfElse'') # if_else @
        [CodePathEnd ''function'' (named_function ''oneIfElse'')])"

text \<open>The expression \<open>a ?? b ?? c\<close>, and a sequence of assignments by operator.\<close>

definition nullish_chain :: expr where
  "nullish_chain =
     LogicalExpression ''??''
       (LogicalExpression ''??'' (Identifier ''a'') (Identifier ''b''))
       (Identifier ''c'')"

definition assignments :: "string list \<Rightarrow> c_event list" where
  "assignments ops = map (\<lambda>op. Visit (AssignmentExpression op)) ops"

text \<open>A state with one open logical unit of score \<open>c\<close>; a configuration with the
  maximum \<open>t\<close>.\<close>

definition scored :: "nat \<Rightarrow> c_state" where
  "scored c =
     \<lparr>complexities = \<lparr>elems = [c], minus1 = Undefined\<rparr>, functionStack = [None],
      c_reports = []\<rparr>"

definition max_of :: "nat \<Rightarrow> ms_config" where
  "max_of t = \<lparr>maxStatements = Num t, ignoreTopLevelFunctions = False\<rparr>"

text \<open>
  The logical units that are open after a sequence of events, innermost first, and
  the innermost one among them whose origin is \<open>function\<close>.
\<close>

fun open_units ::
  "c_event list \<Rightarrow> (string \<times> func_node) list \<Rightarrow> (string \<times> func_node) list" where
  "open_units [] us = us"
| "open_units (CodePathStart origin node # es) us = open_units es ((origin, node) # us)"
| "open_units (CodePathEnd origin node # es) us = open_units es (tl us)"
| "open_units (Visit v # es) us = open_units es us"

fun innermost_function_unit :: "(string \<times> func_node) list \<Rightarrow> func_node option" where
  "innermost_function_unit [] = None"
| "innermost_function_unit ((origin, node) # us) =
     (if origin = ''function'' then Some node else innermost_function_unit us)"

text \<open>A callee that is the bare identifier \<open>n\<close>, or a member access whose property
  is the identifier \<open>n\<close>.\<close>

fun calls_name :: "string \<Rightarrow> expr \<Rightarrow> bool" where
  "calls_name n (Identifier m) = (m = n)"
| "calls_name n (MemberExpression obj (Identifier m)) = (m = n)"
| "calls_name n e = False"

text \<open>
  The events up to the call in \<open>function f() { class A { x = f(); } }\<close>: the
  program, the function \<open>f\<close> and the initializer of the field \<open>x\<close> are open.
\<close>

definition field_initializer :: func_node where
  "field_initializer =
     \<lparr>func_type = ''CallExpression'', func_id = None,
      func_parent = Some (Parent_Other ''PropertyDefinition'')\<rparr>"

definition call_in_field_initializer :: "c_event list" where
  "call_in_field_initializer =
     [CodePathStart ''program'' program_node,
      CodePathStart ''function'' (named_function ''f''),
      CodePathStart ''class-field-initializer'' field_initializer]"

text \<open>The state right after the function declared as \<open>n\<close> was opened.\<close>

definition in_function :: "string \<Rightarrow> c_state" where
  "in_function n = onCodePathStart ''function'' (named_function n) one_open"

text \<open>
  Statement counter with \<open>ignoreTopLevelFunctions: true\<close> and the maximum \<open>t\<close>;
  programs with one top-level function, with two, and with a class static block
  and a function; the state when the traversal is about to leave the program.
\<close>

definition ignoring :: "nat \<Rightarrow> ms_config" where
  "ignoring t = create_max_statements (NumberOption t) (Some (Some True))"

definition one_function :: ast where
  "one_function = Node ''Program'' [function_of [stmt, stmt]]"

definition two_functions :: ast where
  "two_functions =
     Node ''Program'' [function_of [stmt, stmt], function_of [stmt, stmt, stmt]]"

definition static_block_and_function :: ast where
  "static_block_and_function =
     Node ''Program''
       [Node ''ClassDeclaration'' [Node ''ClassBody'' [Node ''StaticBlock'' [stmt, stmt]]],
        function_of [stmt, stmt]]"

definition before_exit :: "ast host \<Rightarrow> ms_config \<Rightarrow> ast \<Rightarrow> ms_state" where
  "before_exit h cfg program =
     ms_run h cfg (Enter program # traverse_all (node_body program)) ms_initial"

section \<open>Properties of the statement counter\<close>

lemma ms_run_append: "ms_run h cfg (xs @ ys) s = ms_run h cfg ys (ms_run h cfg xs s)"
  by (induction xs arbitrary: s) simp_all

lemma report_stack:
  "ms_functionStack (reportIfTooManyStatements h n c m s) = ms_functionStack s"
  by (simp add: reportIfTooManyStatements_def)

lemma report_top:
  "topLevelFunctions (reportIfTooManyStatements h n c m s) = topLevelFunctions s"
  by (simp add: reportIfTooManyStatements_def)

lemma report_each_stack:
  "ms_functionStack (report_each h cfg ds s) = ms_functionStack s"
  by (induction ds arbitrary: s) (auto simp: report_stack)

lemma report_each_top:
  "topLevelFunctions (report_each h cfg ds s) = topLevelFunctions s"
  by (induction ds arbitrary: s) (auto simp: report_top)

lemma report_each_reports:
  "ms_reports (report_each h cfg ds s) =
     ms_reports s @ map (\<lambda>(node, count). exceed_report h cfg node count) (exceeding cfg ds)"
  by (induction ds arbitrary: s)
     (auto simp: reportIfTooManyStatements_def exceed_report_def exceeding_def)

lemma Program_exit_stack:
  "ms_functionStack (Program_exit h cfg s) = ms_functionStack s"
  by (simp add: Program_exit_def report_each_stack)

lemma endFunction_stack:
  "ms_functionStack (endFunction h cfg n s) = snd (pop (ms_functionStack s))"
  by (simp add: endFunction_def Let_def report_stack split: prod.splits)

lemma not_fl_block: "\<not> is_function_like ''BlockStatement''"
  by (simp add: is_function_like_def)

lemma not_fl_program: "\<not> is_function_like ''Program''"
  by (simp add: is_function_like_def)

lemma fl_decl: "is_function_like ''FunctionDeclaration''"
  by (simp add: is_function_like_def)

lemma fl_static: "is_function_like ''StaticBlock''"
  by (simp add: is_function_like_def)

lemma not_fl_expr: "\<not> is_function_like ''ExpressionStatement''"
  by (simp add: is_function_like_def)

lemmas ms_facts = report_stack report_top report_each_stack report_each_top
  Program_exit_stack not_fl_block not_fl_program fl_decl fl_static not_fl_expr

text \<open>
  Traversing a node below an open unit adds the node's own statements to that
  unit's accumulator and restores the rest of the stack: nested units push and pop
  their own accumulator.
\<close>

lemma traverse_stack:
  "(\<forall>s c st. elems (ms_functionStack s) = c # st \<longrightarrow>
      ms_functionStack (ms_run h cfg (traverse n) s) =
        (ms_functionStack s)\<lparr>elems := (c + own_statements n) # st\<rparr>)"
  "(\<forall>s c st. elems (ms_functionStack s) = c # st \<longrightarrow>
      ms_functionStack (ms_run h cfg (traverse_all ns) s) =
        (ms_functionStack s)\<lparr>elems := (c + own_statements_all ns) # st\<rparr>)"
proof (induction n and ns rule: traverse_traverse_all.induct)
  case (1 t body)
  show ?case
  proof (intro allI impI)
    fix s :: ms_state and c st
    assume st: "elems (ms_functionStack s) = c # st"
    show "ms_functionStack (ms_run h cfg (traverse (Node t body)) s) =
        (ms_functionStack s)\<lparr>elems := (c + own_statements (Node t body)) # st\<rparr>"
    proof (cases "is_function_like t")
      case True
      let ?s1 = "startFunction s"
      have e1: "elems (ms_functionStack ?s1) = 0 # c # st"
        using st by (simp add: startFunction_def push0_def)
      from 1 e1 have "ms_functionStack (ms_run h cfg (traverse_all body) ?s1) =
         (ms_functionStack ?s1)\<lparr>elems := (0 + own_statements_all body) # c # st\<rparr>"
        by blast
      then show ?thesis using True st
        by (simp add: ms_run_append endFunction_stack pop_def startFunction_def push0_def
              ms_facts)
    next
      case False
      show ?thesis
      proof (cases "t = ''BlockStatement''")
        case True
        let ?s1 = "countStatements (Node t body) s"
        have e1: "elems (ms_functionStack ?s1) = (c + length body) # st"
          using st by (simp add: countStatements_def add_to_last_def)
        from 1 e1 have "ms_functionStack (ms_run h cfg (traverse_all body) ?s1) =
           (ms_functionStack ?s1)\<lparr>elems := (c + length body + own_statements_all body) # st\<rparr>"
          by blast
        then show ?thesis using True st
          by (simp add: ms_run_append countStatements_def add_to_last_def ms_facts)
      next
        case nb: False
        from 1 st have "ms_functionStack (ms_run h cfg (traverse_all body) s) =
           (ms_functionStack s)\<lparr>elems := (c + own_statements_all body) # st\<rparr>"
          by blast
        then show ?thesis using False nb st
          by (simp add: ms_run_append ms_facts)
      qed
    qed
  qed
next
  case 2
  then show ?case by simp
next
  case (3 n ns)
  show ?case
  proof (intro allI impI)
    fix s :: ms_state and c st
    assume st: "elems (ms_functionStack s) = c # st"
    from 3(1) st have a: "ms_functionStack (ms_run h cfg (traverse n) s) =
        (ms_functionStack s)\<lparr>elems := (c + own_statements n) # st\<rparr>" by blast
    then have "elems (ms_functionStack (ms_run h cfg (traverse n) s)) = (c + own_statements n) # st"
      by simp
    with 3(2) have "ms_functionStack (ms_run h cfg (traverse_all ns) (ms_run h cfg (traverse n) s)) =
        (ms_functionStack (ms_run h cfg (traverse n) s))
          \<lparr>elems := (c + own_statements n + own_statements_all ns) # st\<rparr>"
      by blast
    then show "ms_functionStack (ms_run h cfg (traverse_all (n # ns)) s) =
        (ms_functionStack s)\<lparr>elems := (c + own_statements_all (n # ns)) # st\<rparr>"
      using a by (simp add: ms_run_append add.assoc)
  qed
qed

lemma plain_run:
  "plain n \<longrightarrow> (\<forall>s. ms_run h cfg (traverse n) s = s)"
  "plain_all ns \<longrightarrow> (\<forall>s. ms_run h cfg (traverse_all ns) s = s)"
  by (induction n and ns rule: traverse_traverse_all.induct)
     (simp_all add: ms_run_append ms_facts)

lemma plain_own:
  "plain n \<longrightarrow> own_statements n = 0"
  "plain_all ns \<longrightarrow> own_statements_all ns = 0"
  by (induction n and ns rule: traverse_traverse_all.induct) (simp_all add: ms_facts)

lemma count_at_close_eq:
  assumes "is_function_like (node_type f)"
  shows "count_at_close h cfg f s = Num (unit_count f)"
proof -
  have e: "elems (ms_functionStack (startFunction s)) = 0 # elems (ms_functionStack s)"
    by (simp add: startFunction_def push0_def)
  have "ms_functionStack (ms_run h cfg (traverse_all (node_body f)) (startFunction s)) =
          (ms_functionStack (startFunction s))
            \<lparr>elems := (0 + own_statements_all (node_body f)) # elems (ms_functionStack s)\<rparr>"
    using traverse_stack(2) e by blast
  then show ?thesis using assms
    by (cases f) (simp add: count_at_close_def pop_def unit_count_def ms_facts)
qed

lemma traverse_exit:
  "ms_run h cfg (traverse f) s =
     ms_visit h cfg (Exit f) (ms_run h cfg (Enter f # traverse_all (node_body f)) s)"
  by (cases f) (simp add: ms_run_append ms_facts)

lemma endFunction_report:
  assumes "node_type f \<noteq> ''StaticBlock''" "\<not> ignoreTopLevelFunctions cfg"
  shows "ms_reports (endFunction h cfg f s) =
           ms_reports s @ (if js_gt (fst (pop (ms_functionStack s))) (maxStatements cfg)
                           then [exceed_report h cfg f (fst (pop (ms_functionStack s)))] else [])"
  using assms
  by (simp add: endFunction_def reportIfTooManyStatements_def exceed_report_def Let_def
        split: prod.splits)

text \<open>
  Claim C8.  The statement count attributed to a function-like unit \<open>f\<close> (the value
  popped for it when the traversal leaves it, and the count of its violation) is
  the sum, over the statement blocks entered while \<open>f\<close> is the innermost open
  unit, of the block's immediate statement-list length.  In particular a function
  whose body block holds the statements \<open>stmts\<close>, none of them containing a block
  or a function, has the count \<open>length stmts\<close>, and nothing else is reported while
  it is traversed.
\<close>

theorem statement_count_sums_entered_blocks:
  "is_function_like (node_type f) \<Longrightarrow>
     count_at_close h cfg f s = Num (unit_count f) \<and>
     (node_type f \<noteq> ''StaticBlock'' \<and> \<not> ignoreTopLevelFunctions cfg \<longrightarrow>
        ms_reports (ms_run h cfg (traverse f) s) =
          ms_reports (ms_run h cfg (Enter f # traverse_all (node_body f)) s) @
          (if js_gt (Num (unit_count f)) (maxStatements cfg)
           then [exceed_report h cfg f (Num (unit_count f))] else [])) \<and>
     (f = Node (node_type f) [Node ''BlockStatement'' stmts] \<and> plain_all stmts \<longrightarrow>
        unit_count f = length stmts \<and>
        ms_reports (ms_run h cfg (Enter f # traverse_all (node_body f)) s) = ms_reports s)"
proof (intro conjI impI)
  assume fl: "is_function_like (node_type f)"
  show c: "count_at_close h cfg f s = Num (unit_count f)"
    using fl by (rule count_at_close_eq)
  {
    assume a: "node_type f \<noteq> ''StaticBlock'' \<and> \<not> ignoreTopLevelFunctions cfg"
    show "ms_reports (ms_run h cfg (traverse f) s) =
          ms_reports (ms_run h cfg (Enter f # traverse_all (node_body f)) s) @
          (if js_gt (Num (unit_count f)) (maxStatements cfg)
           then [exceed_report h cfg f (Num (unit_count f))] else [])"
      using a fl c
        endFunction_report [of f cfg h "ms_run h cfg (Enter f # traverse_all (node_body f)) s"]
      by (simp add: traverse_exit count_at_close_def)
  }
  {
    assume b: "f = Node (node_type f) [Node ''BlockStatement'' stmts] \<and> plain_all stmts"
    then have nb: "node_body f = [Node ''BlockStatement'' stmts]"
      by (metis ast.sel(2))
    show "unit_count f = length stmts"
      using b nb plain_own(2) [of stmts] by (simp add: unit_count_def ms_facts)
    show "ms_reports (ms_run h cfg (Enter f # traverse_all (node_body f)) s) = ms_reports s"
      using b nb fl plain_run(2) [of stmts h cfg]
      by (simp add: ms_run_append startFunction_def countStatements_def ms_facts)
  }
qed

text \<open>
  The function \<open>function f() { a; b; c; }\<close> has the count \<open>3\<close>, and with the option
  \<open>2\<close> the program that holds it gets one report, with the count \<open>3\<close>.
\<close>

theorem statement_count_sums_entered_blocks_witness:
  "\<forall>h. count_at_close h (create_max_statements (NumberOption 2) None)
          (function_of [stmt, stmt, stmt]) ms_initial = Num 3 \<and>
       map ms_count (max_statements h (NumberOption 2) None
          (Node ''Program'' [function_of [stmt, stmt, stmt]])) = [Num 3]"
proof
  fix h :: "ast host"
  let ?f = "function_of [stmt, stmt, stmt]"
  let ?cfg = "create_max_statements (NumberOption 2) None"
  have t: "node_type ?f = ''FunctionDeclaration''" by (simp add: function_of_def)
  have fl: "is_function_like (node_type ?f)" by (simp add: t ms_facts)
  have p: "?f = Node (node_type ?f) [Node ''BlockStatement'' [stmt, stmt, stmt]] \<and>
           plain_all [stmt, stmt, stmt]"
    by (simp add: function_of_def stmt_def ms_facts)
  note th = statement_count_sums_entered_blocks [OF fl, of h ?cfg ms_initial "[stmt, stmt, stmt]"]
  from th p have u: "unit_count ?f = 3" by simp
  from th u have 1: "count_at_close h ?cfg ?f ms_initial = Num 3" by simp
  have 2: "map ms_count (max_statements h (NumberOption 2) None (Node ''Program'' [?f])) = [Num 3]"
    by (simp add: max_statements_def ms_initial_def empty_array_def function_of_def stmt_def
          create_max_statements_def maxStatements_of_def startFunction_def push0_def
          countStatements_def add_to_last_def endFunction_def pop_def array_length_def
          reportIfTooManyStatements_def Program_exit_def ms_facts)
  from 1 2 show "count_at_close h ?cfg ?f ms_initial = Num 3 \<and>
       map ms_count (max_statements h (NumberOption 2) None (Node ''Program'' [?f])) = [Num 3]"
    by simp
qed

lemma same_counts_visit:
  assumes "same_counts a b"
  shows "same_counts (ms_visit h cfg e a) (ms_visit h cfg e b)"
proof (cases e)
  case (Enter n)
  then show ?thesis using assms
    by (auto simp: same_counts_def startFunction_def push0_def countStatements_def
          add_to_last_def ms_facts split: list.splits)
next
  case (Exit n)
  then show ?thesis using assms
    by (auto simp: same_counts_def endFunction_def pop_def array_length_def Let_def
          reportIfTooManyStatements_def Program_exit_def report_each_reports ms_facts
          split: list.splits)
qed

lemma same_counts_run:
  "same_counts a b \<Longrightarrow> same_counts (ms_run h cfg es a) (ms_run h cfg es b)"
  by (induction es arbitrary: a b) (simp_all add: same_counts_visit)

text \<open>
  Claim C10.  A \<open>BlockStatement\<close> entered while no function-like unit is open (the
  accumulator stack is empty) is handled by \<open>countStatements\<close>, whose only effect
  is on the property \<open>-1\<close> of the array: the stack stays empty, the deferred units
  and the reports are unchanged, and whatever events follow, the reports, the
  deferred units and the accumulators are those of the run without the block.
  No step of the handler can raise: it reads \<open>node.body.length\<close> of a block and
  writes a property of an array.
\<close>

theorem block_outside_functions_counts_nothing:
  "elems (ms_functionStack s) = [] \<Longrightarrow>
     ms_visit h cfg (Enter (Node ''BlockStatement'' body)) s =
       countStatements (Node ''BlockStatement'' body) s \<and>
     elems (ms_functionStack (countStatements (Node ''BlockStatement'' body) s)) = [] \<and>
     topLevelFunctions (countStatements (Node ''BlockStatement'' body) s) = topLevelFunctions s \<and>
     ms_reports (countStatements (Node ''BlockStatement'' body) s) = ms_reports s \<and>
     ms_reports (ms_run h cfg (Enter (Node ''BlockStatement'' body) # es) s) =
       ms_reports (ms_run h cfg es s) \<and>
     topLevelFunctions (ms_run h cfg (Enter (Node ''BlockStatement'' body) # es) s) =
       topLevelFunctions (ms_run h cfg es s) \<and>
     elems (ms_functionStack (ms_run h cfg (Enter (Node ''BlockStatement'' body) # es) s)) =
       elems (ms_functionStack (ms_run h cfg es s))"
proof -
  assume e: "elems (ms_functionStack s) = []"
  let ?b = "Node ''BlockStatement'' body"
  have v: "ms_visit h cfg (Enter ?b) s = countStatements ?b s" by (simp add: ms_facts)
  have sc: "same_counts (countStatements ?b s) s"
    using e by (simp add: same_counts_def countStatements_def add_to_last_def)
  have "same_counts (ms_run h cfg es (countStatements ?b s)) (ms_run h cfg es s)"
    using sc by (rule same_counts_run)
  then have r: "same_counts (ms_run h cfg (Enter ?b # es) s) (ms_run h cfg es s)"
    using v by simp
  show ?thesis using v sc r e unfolding same_counts_def by simp
qed

text \<open>
  A program that is one bare block of four statements gets no report with the
  option \<open>2\<close>, and a bare block before a function does not change the reports of
  the function.
\<close>

theorem block_outside_functions_counts_nothing_witness:
  "\<forall>h. elems (ms_functionStack ms_initial) = [] \<and>
     max_statements h (NumberOption 2) None
        (Node ''Program'' [Node ''BlockStatement'' [stmt, stmt, stmt, stmt]]) = [] \<and>
     ms_reports (ms_run h (create_max_statements (NumberOption 2) None)
        (Enter (Node ''BlockStatement'' [stmt, stmt, stmt, stmt]) #
           traverse (function_of [stmt, stmt, stmt]))
        ms_initial) =
     ms_reports (ms_run h (create_max_statements (NumberOption 2) None)
        (traverse (function_of [stmt, stmt, stmt])) ms_initial)"
proof
  fix h :: "ast host"
  have e: "elems (ms_functionStack ms_initial) = []"
    by (simp add: ms_initial_def empty_array_def)
  have p: "max_statements h (NumberOption 2) None
        (Node ''Program'' [Node ''BlockStatement'' [stmt, stmt, stmt, stmt]]) = []"
    by (simp add: max_statements_def ms_initial_def empty_array_def stmt_def
          countStatements_def add_to_last_def Program_exit_def create_max_statements_def
          ms_facts)
  show "elems (ms_functionStack ms_initial) = [] \<and>
     max_statements h (NumberOption 2) None
        (Node ''Program'' [Node ''BlockStatement'' [stmt, stmt, stmt, stmt]]) = [] \<and>
     ms_reports (ms_run h (create_max_statements (NumberOption 2) None)
        (Enter (Node ''BlockStatement'' [stmt, stmt, stmt, stmt]) #
           traverse (function_of [stmt, stmt, stmt]))
        ms_initial) =
     ms_reports (ms_run h (create_max_statements (NumberOption 2) None)
        (traverse (function_of [stmt, stmt, stmt])) ms_initial)"
    using e p block_outside_functions_counts_nothing [OF e, of h
        "create_max_statements (NumberOption 2) None"
        "[stmt, stmt, stmt, stmt]" "traverse (function_of [stmt, stmt, stmt])"]
    by blast
qed

lemma ms_eval:
  "ms_initial =
     \<lparr>ms_functionStack = \<lparr>elems = [], minus1 = Undefined\<rparr>, topLevelFunctions = [],
      ms_reports = []\<rparr>"
  by (simp add: ms_initial_def empty_array_def)

lemmas ms_unfold = function_of_def stmt_def is_function_like_def
  create_max_statements_def maxStatements_of_def startFunction_def push0_def
  countStatements_def add_to_last_def endFunction_def pop_def array_length_def
  reportIfTooManyStatements_def Program_exit_def

lemma max_statements_program:
  "max_statements h option option1 (Node ''Program'' body) =
     ms_reports (Program_exit h (create_max_statements option option1)
       (before_exit h (create_max_statements option option1) (Node ''Program'' body)))"
  by (simp add: max_statements_def before_exit_def ms_run_append ms_facts)

text \<open>
  Claim C9, as amended.  With \<open>ignoreTopLevelFunctions\<close> set, a unit other than a
  class static block that closes with no enclosing function-like unit (its
  accumulator \<open>c\<close> is the only one on the stack) is recorded with its count and not
  reported; one that closes inside another unit goes to the threshold check at
  once; a class static block is neither recorded nor reported, wherever it
  closes.  At the end of the program, exactly one recorded unit is never
  reported, and otherwise exactly the recorded units whose count exceeds
  \<open>maxStatements\<close> are reported, in order.
\<close>

theorem deferred_top_level_units:
  "ignoreTopLevelFunctions cfg \<Longrightarrow>
     (node_type f \<noteq> ''StaticBlock'' \<and> elems (ms_functionStack s) = [c] \<longrightarrow>
        endFunction h cfg f s =
          s\<lparr>ms_functionStack := (ms_functionStack s)\<lparr>elems := []\<rparr>,
            topLevelFunctions := topLevelFunctions s @ [(f, Num c)]\<rparr>) \<and>
     (node_type f \<noteq> ''StaticBlock'' \<and> elems (ms_functionStack s) = c # d # st \<longrightarrow>
        endFunction h cfg f s =
          reportIfTooManyStatements h f (Num c) (maxStatements cfg)
            (s\<lparr>ms_functionStack := (ms_functionStack s)\<lparr>elems := d # st\<rparr>\<rparr>)) \<and>
     (node_type f = ''StaticBlock'' \<longrightarrow>
        endFunction h cfg f s = s\<lparr>ms_functionStack := snd (pop (ms_functionStack s))\<rparr>) \<and>
     (length (topLevelFunctions s) = 1 \<longrightarrow> Program_exit h cfg s = s) \<and>
     (length (topLevelFunctions s) \<noteq> 1 \<longrightarrow>
        ms_reports (Program_exit h cfg s) =
          ms_reports s @ map (\<lambda>(node, count). exceed_report h cfg node count)
                             (exceeding cfg (topLevelFunctions s)))"
  by (simp add: endFunction_def pop_def array_length_def Program_exit_def report_each_reports
        Let_def split: prod.splits)

text \<open>
  With the maximum \<open>1\<close>, a program whose only top-level function has two
  statements gets no report; a program with two top-level functions of two and
  three statements gets a report for each.
\<close>

theorem deferred_top_level_units_witness:
  "\<forall>h. ignoreTopLevelFunctions (ignoring 1) \<and>
     map snd (topLevelFunctions (before_exit h (ignoring 1) one_function)) = [Num 2] \<and>
     max_statements h (NumberOption 1) (Some (Some True)) one_function = [] \<and>
     map snd (topLevelFunctions (before_exit h (ignoring 1) two_functions)) = [Num 2, Num 3] \<and>
     map ms_count (max_statements h (NumberOption 1) (Some (Some True)) two_functions) =
       [Num 2, Num 3]"
proof
  fix h :: "ast host"
  have i: "ignoreTopLevelFunctions (ignoring 1)"
    by (simp add: ignoring_def create_max_statements_def)
  have m: "maxStatements (ignoring 1) = Num 1"
    by (simp add: ignoring_def create_max_statements_def maxStatements_of_def)
  have d1: "topLevelFunctions (before_exit h (ignoring 1) one_function) =
              [(function_of [stmt, stmt], Num 2)]"
    by (simp add: before_exit_def one_function_def ignoring_def ms_eval ms_unfold)
  have r1: "ms_reports (before_exit h (ignoring 1) one_function) = []"
    by (simp add: before_exit_def one_function_def ignoring_def ms_eval ms_unfold)
  have d2: "topLevelFunctions (before_exit h (ignoring 1) two_functions) =
              [(function_of [stmt, stmt], Num 2), (function_of [stmt, stmt, stmt], Num 3)]"
    by (simp add: before_exit_def two_functions_def ignoring_def ms_eval ms_unfold)
  have r2: "ms_reports (before_exit h (ignoring 1) two_functions) = []"
    by (simp add: before_exit_def two_functions_def ignoring_def ms_eval ms_unfold)
  have x1: "max_statements h (NumberOption 1) (Some (Some True)) one_function =
             ms_reports (Program_exit h (ignoring 1) (before_exit h (ignoring 1) one_function))"
    unfolding one_function_def ignoring_def by (rule max_statements_program)
  have x2: "max_statements h (NumberOption 1) (Some (Some True)) two_functions =
             ms_reports (Program_exit h (ignoring 1) (before_exit h (ignoring 1) two_functions))"
    unfolding two_functions_def ignoring_def by (rule max_statements_program)
  have e1: "Program_exit h (ignoring 1) (before_exit h (ignoring 1) one_function) =
              before_exit h (ignoring 1) one_function"
    using deferred_top_level_units [OF i, of one_function
        "before_exit h (ignoring 1) one_function" 0 h 0 "[]"] d1
    by simp
  have e2: "ms_reports (Program_exit h (ignoring 1) (before_exit h (ignoring 1) two_functions)) =
              ms_reports (before_exit h (ignoring 1) two_functions) @
              map (\<lambda>(node, count). exceed_report h (ignoring 1) node count)
                (exceeding (ignoring 1)
                   (topLevelFunctions (before_exit h (ignoring 1) two_functions)))"
    using deferred_top_level_units [OF i, of two_functions
        "before_exit h (ignoring 1) two_functions" 0 h 0 "[]"] d2
    by simp
  have 1: "max_statements h (NumberOption 1) (Some (Some True)) one_function = []"
    unfolding x1 e1 r1 by (rule refl)
  have 2: "map ms_count (max_statements h (NumberOption 1) (Some (Some True)) two_functions) =
       [Num 2, Num 3]"
    unfolding x2 e2 r2 d2 using m by (simp add: exceeding_def exceed_report_def)
  show "ignoreTopLevelFunctions (ignoring 1) \<and>
     map snd (topLevelFunctions (before_exit h (ignoring 1) one_function)) = [Num 2] \<and>
     max_statements h (NumberOption 1) (Some (Some True)) one_function = [] \<and>
     map snd (topLevelFunctions (before_exit h (ignoring 1) two_functions)) = [Num 2, Num 3] \<and>
     map ms_count (max_statements h (NumberOption 1) (Some (Some True)) two_functions) =
       [Num 2, Num 3]"
    using i 1 2 unfolding d1 d2 by simp
qed

text \<open>
  Claim C9 as stated fails on
  \<open>class A { static { a; b; } }  function f() { a; b; }\<close> with the maximum \<open>1\<close>.
  The static block closes with no enclosing function-like unit (the stack is
  empty when the program is left) and is not recorded: the function is the only
  recorded unit, so it is not reported although its count \<open>2\<close> exceeds \<open>1\<close>.  Had
  the static block been recorded, two units would be recorded and the function
  would be reported.
\<close>

theorem static_block_not_deferred_counterexample:
  "\<forall>h. ms_functionStack (before_exit h (ignoring 1) static_block_and_function) = empty_array \<and>
     topLevelFunctions (before_exit h (ignoring 1) static_block_and_function) =
       [(function_of [stmt, stmt], Num 2)] \<and>
     max_statements h (NumberOption 1) (Some (Some True)) static_block_and_function = []"
  by (simp add: before_exit_def static_block_and_function_def ignoring_def max_statements_def
        ms_eval empty_array_def ms_unfold)

section \<open>Properties of the complexity counter\<close>

lemma add_score_0: "add_score 0 s = s"
  by (simp add: add_score_def split: list.splits)

lemma add_score_add: "add_score a (add_score b s) = add_score (b + a) s"
  by (simp add: add_score_def add.assoc split: list.splits)

lemma increase_eq:
  "elems (complexities s) \<noteq> [] \<Longrightarrow> increaseComplexity s = add_score 1 s"
  by (simp add: increaseComplexity_def add_to_last_def add_score_def split: list.splits)

lemma add_score_nonempty:
  "elems (complexities (add_score k s)) = [] \<longleftrightarrow> elems (complexities s) = []"
  by (simp add: add_score_def split: list.splits)

lemma increase_times_eq:
  "elems (complexities s) \<noteq> [] \<Longrightarrow> increase_times n s = add_score n s"
  by (induction n arbitrary: s)
     (simp_all add: increase_eq add_score_add add_score_0 add_score_nonempty)

lemma c_run_append: "c_run h th (xs @ ys) s = c_run h th ys (c_run h th xs s)"
  by (induction xs arbitrary: s) simp_all

lemma c_run_lib_append:
  "c_run_lib h th (xs @ ys) s = c_run_lib h th ys (c_run_lib h th xs s)"
  by (induction xs arbitrary: s) simp_all

lemmas score_facts = add_score_0 add_score_nonempty

lemma report_complexity_reports:
  "c_reports (report_complexity h th origin node c s) =
     c_reports s @ (if reportable origin \<and> (th = Num 0 \<or> js_gt c th)
                    then [complex_report h th origin node c] else [])"
  by (simp add: report_complexity_def reportable_def complex_report_def Let_def)

lemma report_complexity_rest:
  "complexities (report_complexity h th origin node c s) = complexities s"
  "functionStack (report_complexity h th origin node c s) = functionStack s"
  by (simp_all add: report_complexity_def Let_def)

lemma unhandled_run:
  "c_run h th (unhandled ts) s = s" "c_run_lib h th (unhandled ts) s = s"
  by (induction ts arbitrary: s) (simp_all add: unhandled_def)

subsection \<open>Logical expressions\<close>

lemma not_logical:
  "\<not> is_LogicalExpression e \<Longrightarrow>
     countLogicalOperatorSequences e cur n = n \<and> logical_nodes e cur = [] \<and>
     logical_visits p e = []"
  by (cases e) simp_all

lemma count_sequences_eq:
  "countLogicalOperatorSequences e cur n = n + length (filter starts_run (logical_nodes e cur))"
proof (induction e arbitrary: cur n)
  case (LogicalExpression op l r)
  have l: "(if is_LogicalExpression l then countLogicalOperatorSequences l (Some op) k else k) =
        k + length (filter starts_run (logical_nodes l (Some op)))" for k
    using LogicalExpression(1) [of "Some op" k] not_logical [of l "Some op" k] by simp
  have r: "(if is_LogicalExpression r then countLogicalOperatorSequences r (Some op) k else k) =
        k + length (filter starts_run (logical_nodes r (Some op)))" for k
    using LogicalExpression(2) [of "Some op" k] not_logical [of r "Some op" k] by simp
  show ?case
    unfolding countLogicalOperatorSequences.simps Let_def l r by auto
qed simp_all

lemma count_sequences_runs:
  "countLogicalOperatorSequences e None 0 = runs e"
  by (simp add: count_sequences_eq runs_def)

lemma on_logical_eq:
  "elems (complexities s) \<noteq> [] \<Longrightarrow>
     on_LogicalExpression parent op l r s =
       (if parent = Some ''LogicalExpression'' then s
        else add_score (runs (LogicalExpression op l r)) s)"
  by (cases parent)
     (simp_all add: on_LogicalExpression_def increase_times_eq count_sequences_runs score_facts)

lemma inner_visits_add_nothing:
  "c_run h th (logical_visits (Some ''LogicalExpression'') e) s = s"
  by (induction e arbitrary: s) (simp_all add: c_run_append on_LogicalExpression_def)

lemma inner_visits_add_nothing_lib:
  "c_run_lib h th (logical_visits (Some ''LogicalExpression'') e) s = s"
  by (induction e arbitrary: s) (simp_all add: c_run_lib_append on_LogicalExpression_def)

text \<open>
  Claim C2.  Within an open logical unit, the count
  \<open>countLogicalOperatorSequences\<close> computes for a logical expression is the number
  of nodes of its operand tree that start a run (the first node, and every node
  whose operator differs from the one propagated from its ancestor); a logical
  expression whose parent is a logical expression adds nothing; and for an
  outermost logical expression the handler, and with it the whole traversal of
  the chain's logical nodes (in both files), adds exactly that number of runs.
\<close>

theorem logical_chain_adds_runs:
  "elems (complexities s) \<noteq> [] \<Longrightarrow>
     countLogicalOperatorSequences (LogicalExpression op l r) None 0 =
       runs (LogicalExpression op l r) \<and>
     on_LogicalExpression (Some ''LogicalExpression'') op l r s = s \<and>
     (parent \<noteq> Some ''LogicalExpression'' \<longrightarrow>
        on_LogicalExpression parent op l r s = add_score (runs (LogicalExpression op l r)) s \<and>
        c_run h th (logical_visits parent (LogicalExpression op l r)) s =
          add_score (runs (LogicalExpression op l r)) s \<and>
        c_run_lib h th (logical_visits parent (LogicalExpression op l r)) s =
          add_score (runs (LogicalExpression op l r)) s)"
  by (simp add: on_logical_eq count_sequences_runs c_run_append c_run_lib_append
        inner_visits_add_nothing inner_visits_add_nothing_lib score_facts)

text \<open>
  In \<open>if (a && b && c)\<close>, \<open>if (a && b && c || d || e)\<close> and \<open>if (a && b || c && d)\<close>
  the condition adds \<open>1\<close>, \<open>2\<close> and \<open>3\<close>.
\<close>

theorem logical_chain_adds_runs_witness:
  "\<forall>h th. elems (complexities one_open) \<noteq> [] \<and>
     elems (complexities (c_run h th (logical_visits (Some ''IfStatement'') and_and) one_open)) = [1] \<and>
     elems (complexities (c_run h th (logical_visits (Some ''IfStatement'') and_and_or_or) one_open)) = [2] \<and>
     elems (complexities (c_run h th (logical_visits (Some ''IfStatement'') and_or_and) one_open)) = [3]"
proof (intro allI)
  fix h :: "func_node host" and th :: jsnum
  have ne: "elems (complexities one_open) \<noteq> []" by (simp add: one_open_def)
  have p: "Some ''IfStatement'' \<noteq> Some ''LogicalExpression''" by simp
  have r: "runs and_and = 1 \<and> runs and_and_or_or = 2 \<and> runs and_or_and = 3"
    by (simp add: runs_def and_and_def and_and_or_or_def and_or_and_def)
  have a: "elems (complexities (add_score k one_open)) = [k]" for k
    by (simp add: add_score_def one_open_def)
  have 1: "c_run h th (logical_visits (Some ''IfStatement'') and_and) one_open =
             add_score (runs and_and) one_open"
    using logical_chain_adds_runs [OF ne, of "''&&''"
        "LogicalExpression ''&&'' (Identifier ''a'') (Identifier ''b'')" "Identifier ''c''"
        "Some ''IfStatement''" h th] p
    unfolding and_and_def by blast
  have 2: "c_run h th (logical_visits (Some ''IfStatement'') and_and_or_or) one_open =
             add_score (runs and_and_or_or) one_open"
    using logical_chain_adds_runs [OF ne, of "''||''"
        "LogicalExpression ''||'' and_and (Identifier ''d'')" "Identifier ''e''"
        "Some ''IfStatement''" h th] p
    unfolding and_and_or_or_def by blast
  have 3: "c_run h th (logical_visits (Some ''IfStatement'') and_or_and) one_open =
             add_score (runs and_or_and) one_open"
    using logical_chain_adds_runs [OF ne, of "''||''"
        "LogicalExpression ''&&'' (Identifier ''a'') (Identifier ''b'')"
        "LogicalExpression ''&&'' (Identifier ''c'') (Identifier ''d'')"
        "Some ''IfStatement''" h th] p
    unfolding and_or_and_def by blast
  show "elems (complexities one_open) \<noteq> [] \<and>
     elems (complexities (c_run h th (logical_visits (Some ''IfStatement'') and_and) one_open)) = [1] \<and>
     elems (complexities (c_run h th (logical_visits (Some ''IfStatement'') and_and_or_or) one_open)) = [2] \<and>
     elems (complexities (c_run h th (logical_visits (Some ''IfStatement'') and_or_and) one_open)) = [3]"
    using ne r a 1 2 3 by simp
qed

subsection \<open>Nullish coalescing and logical assignment\<close>

lemma on_assignment_eq:
  "elems (complexities s) \<noteq> [] \<Longrightarrow>
     on_AssignmentExpression op s =
       add_score (if isLogicalAssignmentOperator op then 1 else 0) s"
  by (simp add: on_AssignmentExpression_def increase_eq score_facts)

lemma assignments_add:
  "elems (complexities s) \<noteq> [] \<Longrightarrow>
     c_run h th (assignments ops) s =
       add_score (length (filter isLogicalAssignmentOperator ops)) s \<and>
     c_run_lib h th (assignments ops) s =
       add_score (length (filter isLogicalAssignmentOperator ops)) s"
  by (induction ops arbitrary: s)
     (simp_all add: assignments_def on_assignment_eq add_score_add score_facts)

text \<open>
  Claim C7, as amended.  Within an open logical unit, an assignment adds exactly
  \<open>1\<close> when its operator is \<open>&&=\<close>, \<open>||=\<close> or \<open>??=\<close> and nothing otherwise, so a
  sequence of assignments adds one per logical assignment, without merging.  A
  \<open>??\<close> is a \<open>LogicalExpression\<close> and is counted by the run rule of claim C2: a
  \<open>??\<close> whose parent and operands are not logical expressions adds exactly \<open>1\<close>,
  and an outermost \<open>??\<close> adds the number of runs of its chain, in which adjacent
  \<open>??\<close> merge.
\<close>

theorem nullish_and_logical_assignment:
  "elems (complexities s) \<noteq> [] \<Longrightarrow>
     on_AssignmentExpression op s =
       add_score (if op = ''&&='' \<or> op = ''||='' \<or> op = ''??='' then 1 else 0) s \<and>
     c_run h th (assignments ops) s =
       add_score (length (filter isLogicalAssignmentOperator ops)) s \<and>
     c_run_lib h th (assignments ops) s =
       add_score (length (filter isLogicalAssignmentOperator ops)) s \<and>
     (parent \<noteq> Some ''LogicalExpression'' \<longrightarrow>
        (\<not> is_LogicalExpression l \<and> \<not> is_LogicalExpression r \<longrightarrow>
           on_LogicalExpression parent ''??'' l r s = add_score 1 s) \<and>
        c_run h th (logical_visits parent (LogicalExpression ''??'' l r)) s =
          add_score (runs (LogicalExpression ''??'' l r)) s \<and>
        c_run_lib h th (logical_visits parent (LogicalExpression ''??'' l r)) s =
          add_score (runs (LogicalExpression ''??'' l r)) s)"
proof (intro conjI impI)
  assume ne: "elems (complexities s) \<noteq> []"
  show "on_AssignmentExpression op s =
       add_score (if op = ''&&='' \<or> op = ''||='' \<or> op = ''??='' then 1 else 0) s"
    using on_assignment_eq [OF ne, of op] by (simp add: isLogicalAssignmentOperator_def)
  show "c_run h th (assignments ops) s =
       add_score (length (filter isLogicalAssignmentOperator ops)) s"
    using assignments_add [OF ne] by simp
  show "c_run_lib h th (assignments ops) s =
       add_score (length (filter isLogicalAssignmentOperator ops)) s"
    using assignments_add [OF ne] by simp
  {
    assume p: "parent \<noteq> Some ''LogicalExpression''"
    show "c_run h th (logical_visits parent (LogicalExpression ''??'' l r)) s =
          add_score (runs (LogicalExpression ''??'' l r)) s"
      using ne p
      by (simp add: on_logical_eq inner_visits_add_nothing c_run_append score_facts)
    show "c_run_lib h th (logical_visits parent (LogicalExpression ''??'' l r)) s =
          add_score (runs (LogicalExpression ''??'' l r)) s"
      using ne p
      by (simp add: on_logical_eq inner_visits_add_nothing_lib c_run_lib_append score_facts)
    assume "\<not> is_LogicalExpression l \<and> \<not> is_LogicalExpression r"
    then have "runs (LogicalExpression ''??'' l r) = 1"
      using not_logical [of l "Some ''??''"] not_logical [of r "Some ''??''"]
      by (simp add: runs_def)
    then show "on_LogicalExpression parent ''??'' l r s = add_score 1 s"
      using ne p by (simp add: on_logical_eq)
  }
qed

text \<open>
  The assignments \<open>||=\<close>, \<open>||=\<close>, \<open>=\<close>, \<open>??=\<close> add \<open>3\<close>, and \<open>return val ?? 'default'\<close>
  adds \<open>1\<close>.
\<close>

theorem nullish_and_logical_assignment_witness:
  "\<forall>h th. elems (complexities one_open) \<noteq> [] \<and>
     elems (complexities (c_run h th (assignments [''||='', ''||='', ''='', ''??='']) one_open)) = [3] \<and>
     elems (complexities (on_LogicalExpression (Some ''ReturnStatement'') ''??''
         (Identifier ''val'') (OtherExpression ''Literal'') one_open)) = [1]"
proof (intro allI)
  fix h :: "func_node host" and th :: jsnum
  have ne: "elems (complexities one_open) \<noteq> []" by (simp add: one_open_def)
  have a: "elems (complexities (add_score k one_open)) = [k]" for k
    by (simp add: add_score_def one_open_def)
  note t = nullish_and_logical_assignment [OF ne, of "''=''" h th
      "[''||='', ''||='', ''='', ''??='']" "Some ''ReturnStatement''"
      "Identifier ''val''" "OtherExpression ''Literal''"]
  have 1: "c_run h th (assignments [''||='', ''||='', ''='', ''??='']) one_open =
             add_score 3 one_open"
    using t by (simp add: isLogicalAssignmentOperator_def numeral_3_eq_3)
  have 2: "on_LogicalExpression (Some ''ReturnStatement'') ''??''
         (Identifier ''val'') (OtherExpression ''Literal'') one_open = add_score 1 one_open"
    using t by simp
  show "elems (complexities one_open) \<noteq> [] \<and>
     elems (complexities (c_run h th (assignments [''||='', ''||='', ''='', ''??='']) one_open)) = [3] \<and>
     elems (complexities (on_LogicalExpression (Some ''ReturnStatement'') ''??''
         (Identifier ''val'') (OtherExpression ''Literal'') one_open)) = [1]"
    using ne a unfolding 1 2 by simp
qed

text \<open>
  Claim C7 as stated fails on \<open>return a ?? b ?? c\<close>: the expression holds two
  occurrences of \<open>??\<close>, and both files add \<open>1\<close> for it, not \<open>2\<close>: the inner \<open>??\<close> has
  a logical expression as its parent and is skipped, and the outer one counts a
  single run.
\<close>

theorem nullish_chain_merges_counterexample:
  "\<forall>h th. map snd (logical_nodes nullish_chain None) = [''??'', ''??''] \<and>
     elems (complexities
       (c_run h th (logical_visits (Some ''ReturnStatement'') nullish_chain) one_open)) = [1] \<and>
     elems (complexities
       (c_run_lib h th (logical_visits (Some ''ReturnStatement'') nullish_chain) one_open)) = [1]"
  by (simp add: nullish_chain_def one_open_def on_LogicalExpression_def increaseComplexity_def
        add_to_last_def)

subsection \<open>The baseline score\<close>

lemma start_end:
  "c_reports (onCodePathEnd h th origin f (onCodePathStart origin f s)) =
     c_reports s @ (if reportable origin \<and> th = Num 0
                    then [complex_report h th origin f (Num 0)] else [])"
  by (cases th)
     (auto simp: onCodePathEnd_def onCodePathStart_def pop_def push0_def Let_def
        report_complexity_reports reportable_def)

lemma start_end_lib:
  "c_reports (onCodePathEnd_lib h th origin f (onCodePathStart_lib origin f s)) =
     c_reports s @ (if reportable origin \<and> th = Num 0
                    then [complex_report h th origin f (Num 0)] else [])"
  by (cases th)
     (auto simp: onCodePathEnd_lib_def onCodePathStart_lib_def pop_def push0_def Let_def
        report_complexity_reports reportable_def)

text \<open>
  Claim C1, as amended.  In both files the score of a logical unit starts at \<open>0\<close>:
  \<open>onCodePathStart\<close> pushes \<open>0\<close>.  For a unit in which only nodes without a
  handler are visited (a function whose body is a single \<open>return\<close> of a plain
  value), the score popped at its end is \<open>0\<close>, and it is reported exactly when its
  origin is reportable and the threshold is \<open>0\<close>, with the complexity \<open>0\<close> in the
  payload.
\<close>

theorem score_starts_at_zero:
  "elems (complexities (onCodePathStart origin f s)) = 0 # elems (complexities s) \<and>
   elems (complexities (onCodePathStart_lib origin f s)) = 0 # elems (complexities s) \<and>
   fst (pop (complexities (c_run h th (CodePathStart origin f # unhandled ts) s))) = Num 0 \<and>
   fst (pop (complexities (c_run_lib h th (CodePathStart origin f # unhandled ts) s))) = Num 0 \<and>
   c_reports (c_run h th (CodePathStart origin f # unhandled ts @ [CodePathEnd origin f]) s) =
     c_reports s @ (if reportable origin \<and> th = Num 0
                    then [complex_report h th origin f (Num 0)] else []) \<and>
   c_reports (c_run_lib h th (CodePathStart origin f # unhandled ts @ [CodePathEnd origin f]) s) =
     c_reports s @ (if reportable origin \<and> th = Num 0
                    then [complex_report h th origin f (Num 0)] else [])"
proof (intro conjI)
  show "elems (complexities (onCodePathStart origin f s)) = 0 # elems (complexities s)"
    by (simp add: onCodePathStart_def push0_def Let_def)
  show "elems (complexities (onCodePathStart_lib origin f s)) = 0 # elems (complexities s)"
    by (simp add: onCodePathStart_lib_def push0_def)
  show "fst (pop (complexities (c_run h th (CodePathStart origin f # unhandled ts) s))) = Num 0"
    by (simp add: onCodePathStart_def push0_def pop_def Let_def unhandled_run)
  show "fst (pop (complexities (c_run_lib h th (CodePathStart origin f # unhandled ts) s))) = Num 0"
    by (simp add: onCodePathStart_lib_def push0_def pop_def unhandled_run)
  show "c_reports (c_run h th (CodePathStart origin f # unhandled ts @ [CodePathEnd origin f]) s) =
     c_reports s @ (if reportable origin \<and> th = Num 0
                    then [complex_report h th origin f (Num 0)] else [])"
    by (simp add: c_run_append start_end unhandled_run)
  show "c_reports (c_run_lib h th (CodePathStart origin f # unhandled ts @ [CodePathEnd origin f]) s) =
     c_reports s @ (if reportable origin \<and> th = Num 0
                    then [complex_report h th origin f (Num 0)] else [])"
    by (simp add: c_run_lib_append start_end_lib unhandled_run)
qed

text \<open>With the threshold \<open>0\<close>, \<open>function basic() { return true; }\<close> is reported with
  the complexity \<open>0\<close>.\<close>

theorem score_starts_at_zero_witness:
  "\<forall>h. map c_complexity
          (c_reports (c_run h (Num 0) (only_return (named_function ''basic'')) c_initial)) =
        [Num 0]"
proof
  fix h :: "func_node host"
  have "reportable ''function''" by (simp add: reportable_def)
  then show "map c_complexity
          (c_reports (c_run h (Num 0) (only_return (named_function ''basic'')) c_initial)) =
        [Num 0]"
    using score_starts_at_zero [of "''function''" "named_function ''basic''" c_initial h "Num 0"
      "[''FunctionDeclaration'', ''Identifier'', ''BlockStatement'', ''ReturnStatement'',
        ''Literal'']"]
    by (simp add: only_return_def c_initial_def complex_report_def)
qed

text \<open>
  Claim C1 as stated fails on the program \<open>function basic() { return true; }\<close>
  analysed with the option \<open>0\<close>: both files report the function with the
  complexity \<open>0\<close>, not \<open>1\<close>.
\<close>

theorem baseline_is_not_one_counterexample:
  "\<forall>h. map c_complexity (complexity h (NumberOption 0)
            (in_program (only_return (named_function ''basic'')))) = [Num 0] \<and>
       map c_complexity (complexity_lib h (NumberOption 0)
            (in_program (only_return (named_function ''basic'')))) = [Num 0]"
  by (simp add: complexity_def complexity_lib_def threshold_of_def in_program_def only_return_def
        c_run_append c_run_lib_append c_initial_def empty_array_def
        onCodePathStart_def onCodePathStart_lib_def onCodePathEnd_def onCodePathEnd_lib_def
        push0_def pop_def Let_def report_complexity_def unhandled_run)

subsection \<open>If statements\<close>

lemma on_if_eq:
  "elems (complexities s) \<noteq> [] \<Longrightarrow>
     on_IfStatement alt s =
       add_score (if alt = None \<or> alt = Some ''IfStatement'' then 1 else 2) s"
  by (cases alt)
     (simp_all add: on_IfStatement_def Let_def increase_eq add_score_add numeral_2_eq_2
        score_facts)

lemma on_if_lib_eq:
  "elems (complexities s) \<noteq> [] \<Longrightarrow> on_IfStatement_lib alt s = add_score 1 s"
  by (simp add: on_IfStatement_lib_def increase_eq score_facts)

lemma else_if_chain_adds:
  "elems (complexities s) \<noteq> [] \<Longrightarrow> final \<noteq> Some ''IfStatement'' \<Longrightarrow>
     c_run h th (else_if_chain n final) s =
       add_score (Suc n + (if final = None then 0 else 1)) s"
  by (induction n arbitrary: s) (auto simp: on_if_eq add_score_add numeral_2_eq_2 score_facts)

lemma else_if_chain_adds_lib:
  "elems (complexities s) \<noteq> [] \<Longrightarrow>
     c_run_lib h th (else_if_chain n final) s = add_score (Suc n) s"
  by (induction n arbitrary: s) (auto simp: on_if_lib_eq add_score_add score_facts)

text \<open>
  Claim C3.  Within an open logical unit, the \<open>IfStatement\<close> handler of part_001
  adds exactly \<open>1\<close>, and \<open>1\<close> more exactly when the statement has an alternate that
  is not an \<open>IfStatement\<close>; hence an else-if chain of \<open>n + 1\<close> \<open>if\<close> statements adds
  \<open>n + 1\<close>, and one more when it ends in an \<open>else\<close> that is not an \<open>if\<close>: this is
  what the claim says.  The handler of src/lib/rules/complexity.js is
  \<open>increaseComplexity\<close> itself: it adds exactly \<open>1\<close> whatever the alternate is, a
  chain adds \<open>n + 1\<close> whatever its end is, and the \<open>else\<close> branch is missed.
\<close>

theorem if_statement_else_branch:
  "elems (complexities s) \<noteq> [] \<Longrightarrow>
     on_IfStatement alt s =
       add_score (if alt = None \<or> alt = Some ''IfStatement'' then 1 else 2) s \<and>
     (final \<noteq> Some ''IfStatement'' \<longrightarrow>
        c_run h th (else_if_chain n final) s =
          add_score (Suc n + (if final = None then 0 else 1)) s) \<and>
     on_IfStatement_lib alt s = add_score 1 s \<and>
     c_run_lib h th (else_if_chain n final) s = add_score (Suc n) s"
proof (intro conjI impI)
  assume ne: "elems (complexities s) \<noteq> []"
  show "on_IfStatement alt s =
       add_score (if alt = None \<or> alt = Some ''IfStatement'' then 1 else 2) s"
    using ne by (rule on_if_eq)
  show "on_IfStatement_lib alt s = add_score 1 s"
    using ne by (rule on_if_lib_eq)
  show "c_run_lib h th (else_if_chain n final) s = add_score (Suc n) s"
    using ne by (rule else_if_chain_adds_lib)
  assume "final \<noteq> Some ''IfStatement''"
  with ne show "c_run h th (else_if_chain n final) s =
          add_score (Suc n + (if final = None then 0 else 1)) s"
    by (rule else_if_chain_adds)
qed

text \<open>
  For \<open>if (a) { } else { }\<close> part_001 adds \<open>2\<close> and src/lib/rules/complexity.js adds
  \<open>1\<close>; with the option \<open>1\<close> the function \<open>oneIfElse\<close> of the tests is reported with
  the complexity \<open>2\<close> by the former and not reported by the latter.
\<close>

theorem if_statement_else_branch_witness:
  "\<forall>h. elems (complexities one_open) \<noteq> [] \<and>
     elems (complexities (c_run h (Num 1) if_else one_open)) = [2] \<and>
     elems (complexities (c_run_lib h (Num 1) if_else one_open)) = [1] \<and>
     map c_complexity (complexity h (NumberOption 1) one_if_else) = [Num 2] \<and>
     complexity_lib h (NumberOption 1) one_if_else = []"
proof
  fix h :: "func_node host"
  have ne: "elems (complexities one_open) \<noteq> []" by (simp add: one_open_def)
  have a: "elems (complexities (add_score k one_open)) = [k]" for k
    by (simp add: add_score_def one_open_def)
  note th = if_statement_else_branch [OF ne, where alt = "Some ''BlockStatement''"]
  have 1: "elems (complexities (c_run h (Num 1) if_else one_open)) = [2]"
    using th a by (simp add: if_else_def)
  have 2: "elems (complexities (c_run_lib h (Num 1) if_else one_open)) = [1]"
    using th a by (simp add: if_else_def)
  have 3: "map c_complexity (complexity h (NumberOption 1) one_if_else) = [Num 2]"
    by (simp add: complexity_def threshold_of_def one_if_else_def in_program_def if_else_def
        c_initial_def empty_array_def onCodePathStart_def onCodePathEnd_def push0_def pop_def
        Let_def report_complexity_def on_IfStatement_def increaseComplexity_def add_to_last_def)
  have 4: "complexity_lib h (NumberOption 1) one_if_else = []"
    by (simp add: complexity_lib_def threshold_of_def one_if_else_def in_program_def if_else_def
        c_initial_def empty_array_def onCodePathStart_lib_def onCodePathEnd_lib_def push0_def
        pop_def Let_def report_complexity_def on_IfStatement_lib_def increaseComplexity_def
        add_to_last_def)
  from ne 1 2 3 4 show "elems (complexities one_open) \<noteq> [] \<and>
     elems (complexities (c_run h (Num 1) if_else one_open)) = [2] \<and>
     elems (complexities (c_run_lib h (Num 1) if_else one_open)) = [1] \<and>
     map c_complexity (complexity h (NumberOption 1) one_if_else) = [Num 2] \<and>
     complexity_lib h (NumberOption 1) one_if_else = []" by simp
qed

subsection \<open>Recursive calls\<close>

lemma on_call_identifier:
  "elems (complexities s) \<noteq> [] \<Longrightarrow> at_last (functionStack s) = Some (Identifier n) \<Longrightarrow>
     on_CallExpression callee s = (if calls_name n callee then add_score 1 s else s)"
  apply (cases callee)
  apply (simp_all add: on_CallExpression_def increase_eq score_facts)
  subgoal for obj pr by (cases pr) (auto simp: increase_eq score_facts)
  done

lemma on_call_none:
  "at_last (functionStack s) = None \<Longrightarrow> on_CallExpression callee s = s"
  by (simp add: on_CallExpression_def)

lemma on_call_nameless:
  "at_last (functionStack s) = Some b \<Longrightarrow> expr_name b = None \<Longrightarrow>
     on_CallExpression callee s = s"
  apply (cases callee)
  apply (simp_all add: on_CallExpression_def)
  subgoal for obj pr by (cases pr; cases b) auto
  done

lemma visit_keeps_bindings:
  "functionStack (c_visit h th (Visit v) s) = functionStack s"
proof -
  have i: "functionStack (increaseComplexity s) = functionStack s" for s
    by (simp add: increaseComplexity_def)
  have t: "functionStack (increase_times k s) = functionStack s" for k s
    by (induction k arbitrary: s) (simp_all add: i)
  show ?thesis
    by (cases v)
       (auto simp: i t on_IfStatement_def on_CallExpression_def on_SwitchStatement_def
          on_LogicalExpression_def on_AssignmentExpression_def Let_def
          split: option.splits expr.splits)
qed

text \<open>
  Claim C4, as amended.  A call is compared with the binding of the innermost
  open logical unit, the last entry of \<open>functionStack\<close>.  When that entry is empty
  the call adds nothing; when it is the identifier \<open>n\<close> the call adds exactly \<open>1\<close>
  if its callee is the bare identifier \<open>n\<close> or a member access whose property is
  the identifier \<open>n\<close>, and nothing otherwise; when it is a node without a name (a
  destructuring pattern) the call adds nothing.  Opening a unit pushes the binding
  \<open>getFunctionIdentifier\<close> finds for its node when its origin is \<open>function\<close>, and an
  empty binding for every other origin, whatever units are open around it;
  visiting a node does not change the bindings, and closing the unit restores
  those of the enclosing units.  \<open>getFunctionIdentifier\<close> takes the declared name,
  else the \<open>id\<close> of the declarator the function initializes, else the identifier
  it is assigned to, else the identifier property of the member it is assigned
  to, else the identifier key of its property, else nothing.
\<close>

theorem self_call_against_innermost_unit:
  "elems (complexities s) \<noteq> [] \<Longrightarrow>
     (at_last (functionStack s) = None \<longrightarrow> on_CallExpression callee s = s) \<and>
     (at_last (functionStack s) = Some (Identifier n) \<longrightarrow>
        on_CallExpression callee s = (if calls_name n callee then add_score 1 s else s)) \<and>
     (at_last (functionStack s) = Some b \<and> expr_name b = None \<longrightarrow>
        on_CallExpression callee s = s) \<and>
     at_last (functionStack (onCodePathStart origin node s)) =
       (if origin = ''function'' then getFunctionIdentifier node else None) \<and>
     functionStack (c_visit h th (Visit v) s) = functionStack s \<and>
     functionStack (onCodePathEnd h th origin node (onCodePathStart origin node s)) =
       functionStack s \<and>
     (func_id node = Some i \<longrightarrow> getFunctionIdentifier node = Some i) \<and>
     (func_id node = None \<longrightarrow>
        (func_parent node = Some (Parent_VariableDeclarator i) \<longrightarrow>
           getFunctionIdentifier node = Some i) \<and>
        (func_parent node = Some (Parent_AssignmentExpression (Identifier m)) \<longrightarrow>
           getFunctionIdentifier node = Some (Identifier m)) \<and>
        (func_parent node =
           Some (Parent_AssignmentExpression (MemberExpression obj (Identifier m))) \<longrightarrow>
           getFunctionIdentifier node = Some (Identifier m)) \<and>
        (func_parent node = Some (Parent_Property (Identifier m)) \<longrightarrow>
           getFunctionIdentifier node = Some (Identifier m)) \<and>
        (func_parent node = None \<or> (\<exists>t. func_parent node = Some (Parent_Other t)) \<longrightarrow>
           getFunctionIdentifier node = None))"
proof (intro conjI impI)
  assume ne: "elems (complexities s) \<noteq> []"
  show "at_last (functionStack s) = None \<Longrightarrow> on_CallExpression callee s = s"
    by (rule on_call_none)
  show "at_last (functionStack s) = Some (Identifier n) \<Longrightarrow>
        on_CallExpression callee s = (if calls_name n callee then add_score 1 s else s)"
    using ne by (rule on_call_identifier)
  show "at_last (functionStack s) = Some b \<and> expr_name b = None \<Longrightarrow>
        on_CallExpression callee s = s"
    using on_call_nameless by blast
  show "at_last (functionStack (onCodePathStart origin node s)) =
       (if origin = ''function'' then getFunctionIdentifier node else None)"
    by (simp add: onCodePathStart_def Let_def)
  show "functionStack (c_visit h th (Visit v) s) = functionStack s"
    by (rule visit_keeps_bindings)
  show "functionStack (onCodePathEnd h th origin node (onCodePathStart origin node s)) =
       functionStack s"
    by (simp add: onCodePathEnd_def onCodePathStart_def Let_def report_complexity_rest
          split: prod.splits)
qed (auto simp: getFunctionIdentifier_def)

text \<open>
  Inside \<open>function f\<close>, the calls \<open>f()\<close> and \<open>math.f()\<close> add \<open>1\<close> each and the call
  \<open>g()\<close> adds nothing.
\<close>

theorem self_call_against_innermost_unit_witness:
  "elems (complexities (in_function ''f'')) \<noteq> [] \<and>
   at_last (functionStack (in_function ''f'')) = Some (Identifier ''f'') \<and>
   elems (complexities (on_CallExpression (Identifier ''f'') (in_function ''f''))) = [1, 0] \<and>
   elems (complexities (on_CallExpression
      (MemberExpression (Identifier ''math'') (Identifier ''f'')) (in_function ''f''))) = [1, 0] \<and>
   elems (complexities (on_CallExpression (Identifier ''g'') (in_function ''f''))) = [0, 0]"
proof -
  have ne: "elems (complexities (in_function ''f'')) \<noteq> []"
    by (simp add: in_function_def onCodePathStart_def push0_def Let_def)
  have b: "at_last (functionStack (in_function ''f'')) = Some (Identifier ''f'')"
    by (simp add: in_function_def onCodePathStart_def Let_def getFunctionIdentifier_def
        named_function_def)
  have a: "elems (complexities (add_score k (in_function ''f''))) = [k, 0]" for k
    by (simp add: add_score_def in_function_def onCodePathStart_def push0_def Let_def one_open_def)
  have z: "elems (complexities (in_function ''f'')) = [0, 0]"
    by (simp add: in_function_def onCodePathStart_def push0_def Let_def one_open_def)
  have 1: "on_CallExpression (Identifier ''f'') (in_function ''f'') =
             add_score 1 (in_function ''f'')"
    using self_call_against_innermost_unit [OF ne, of "Identifier ''f''" "''f''"] b by simp
  have 2: "on_CallExpression (MemberExpression (Identifier ''math'') (Identifier ''f''))
             (in_function ''f'') = add_score 1 (in_function ''f'')"
    using self_call_against_innermost_unit [OF ne,
        of "MemberExpression (Identifier ''math'') (Identifier ''f'')" "''f''"] b by simp
  have 3: "on_CallExpression (Identifier ''g'') (in_function ''f'') = in_function ''f''"
    using self_call_against_innermost_unit [OF ne, of "Identifier ''g''" "''f''"] b by simp
  show ?thesis using ne b z a unfolding 1 2 3 by simp
qed

text \<open>
  Claim C4 as stated fails on \<open>function f() { class A { x = f(); } }\<close>.  When the
  call \<open>f()\<close> is visited, the innermost open unit whose origin is \<open>function\<close> is
  \<open>f\<close>, its binding is the identifier \<open>f\<close>, and the callee is the bare identifier
  \<open>f\<close>; but the innermost open unit is the field initializer, for which an empty
  binding was pushed, and the call changes nothing.
\<close>

theorem call_in_field_initializer_counterexample:
  "\<forall>h th.
     innermost_function_unit (open_units call_in_field_initializer []) =
       Some (named_function ''f'') \<and>
     getFunctionIdentifier (named_function ''f'') = Some (Identifier ''f'') \<and>
     calls_name ''f'' (Identifier ''f'') \<and>
     c_run h th (call_in_field_initializer @ [Visit (CallExpression (Identifier ''f''))])
       c_initial =
     c_run h th call_in_field_initializer c_initial"
  by (simp add: call_in_field_initializer_def getFunctionIdentifier_def named_function_def
        onCodePathStart_def Let_def on_CallExpression_def)


section \<open>Thresholds and options of both rules\<close>

lemma end_reports:
  "elems (complexities s) = c # st \<Longrightarrow>
     c_reports (onCodePathEnd h th origin node s) =
       c_reports s @ (if reportable origin \<and> (th = Num 0 \<or> js_gt (Num c) th)
                      then [complex_report h th origin node (Num c)] else []) \<and>
     c_reports (onCodePathEnd_lib h th origin node s) =
       c_reports s @ (if reportable origin \<and> (th = Num 0 \<or> js_gt (Num c) th)
                      then [complex_report h th origin node (Num c)] else [])"
  by (simp add: onCodePathEnd_def onCodePathEnd_lib_def pop_def Let_def report_complexity_reports)

text \<open>
  Claim C5, as amended.  In the complexity rule (both files), a reportable unit
  that closes with the score \<open>c\<close> under the threshold \<open>t\<close> is reported exactly when
  \<open>t = 0\<close> or \<open>c > t\<close>: a score equal to a threshold \<open>t > 0\<close> is not reported, the
  score \<open>t + 1\<close> is, and the threshold \<open>0\<close> reports every score, the score \<open>0\<close>
  included.  In the statement counter, a unit that reaches the threshold check
  with the count \<open>k\<close> is reported exactly when \<open>k > t\<close>; the threshold \<open>0\<close> has no
  rule of its own there.
\<close>

theorem threshold_boundary:
  "reportable origin \<Longrightarrow> elems (complexities s) = c # st \<Longrightarrow> maxStatements cfg = Num t \<Longrightarrow>
     c_reports (onCodePathEnd h (Num t) origin node s) =
       c_reports s @ (if t = 0 \<or> c > t
                      then [complex_report h (Num t) origin node (Num c)] else []) \<and>
     c_reports (onCodePathEnd_lib h (Num t) origin node s) =
       c_reports s @ (if t = 0 \<or> c > t
                      then [complex_report h (Num t) origin node (Num c)] else []) \<and>
     ms_reports (reportIfTooManyStatements hs f (Num k) (maxStatements cfg) ms) =
       ms_reports ms @ (if k > t then [exceed_report hs cfg f (Num k)] else [])"
  using end_reports [of s c st h "Num t" origin node]
  by (simp add: reportIfTooManyStatements_def exceed_report_def)

text \<open>
  A function of score \<open>3\<close> is not reported under the threshold \<open>3\<close> and is reported
  under the threshold \<open>2\<close>; a function of \<open>3\<close> statements is not reported under the
  maximum \<open>3\<close>, one of \<open>4\<close> statements is.
\<close>

theorem threshold_boundary_witness:
  "\<forall>h hs. reportable ''function'' \<and> elems (complexities (scored 3)) = [3] \<and>
     maxStatements (max_of 3) = Num 3 \<and>
     c_reports (onCodePathEnd h (Num 3) ''function'' (named_function ''f'') (scored 3)) = [] \<and>
     map c_complexity
       (c_reports (onCodePathEnd h (Num 2) ''function'' (named_function ''f'') (scored 3))) =
       [Num 3] \<and>
     ms_reports (reportIfTooManyStatements hs (function_of []) (Num 3)
       (maxStatements (max_of 3)) ms_initial) = [] \<and>
     map ms_count (ms_reports (reportIfTooManyStatements hs (function_of []) (Num 4)
       (maxStatements (max_of 3)) ms_initial)) = [Num 4]"
proof (intro allI)
  fix h :: "func_node host" and hs :: "ast host"
  have r: "reportable ''function''" by (simp add: reportable_def)
  have e: "elems (complexities (scored 3)) = [3]" by (simp add: scored_def)
  have m: "maxStatements (max_of 3) = Num 3" by (simp add: max_of_def)
  have m2: "maxStatements (max_of 2) = Num 2" by (simp add: max_of_def)
  note a = threshold_boundary [OF r e m, of h "named_function ''f''" hs "function_of []" 3
      ms_initial]
  note b = threshold_boundary [OF r e m2, of h "named_function ''f''" hs "function_of []" 4
      ms_initial]
  note c = threshold_boundary [OF r e m, of h "named_function ''f''" hs "function_of []" 4
      ms_initial]
  show "reportable ''function'' \<and> elems (complexities (scored 3)) = [3] \<and>
     maxStatements (max_of 3) = Num 3 \<and>
     c_reports (onCodePathEnd h (Num 3) ''function'' (named_function ''f'') (scored 3)) = [] \<and>
     map c_complexity
       (c_reports (onCodePathEnd h (Num 2) ''function'' (named_function ''f'') (scored 3))) =
       [Num 3] \<and>
     ms_reports (reportIfTooManyStatements hs (function_of []) (Num 3)
       (maxStatements (max_of 3)) ms_initial) = [] \<and>
     map ms_count (ms_reports (reportIfTooManyStatements hs (function_of []) (Num 4)
       (maxStatements (max_of 3)) ms_initial)) = [Num 4]"
    using r e m a b c
    by (simp add: scored_def complex_report_def exceed_report_def ms_initial_def)
qed

text \<open>
  Claim C5 as stated fails at the threshold \<open>0\<close>.  The statement counter does not
  report \<open>function f() { }\<close>, whose count is \<open>0\<close>, under the option \<open>0\<close>, although
  the threshold is \<open>0\<close>; and the complexity rule reports
  \<open>function f() { return true; }\<close> under the option \<open>0\<close> with the complexity \<open>0\<close>, a
  score exactly equal to the threshold.
\<close>

theorem threshold_zero_counterexample:
  "\<forall>h hs.
     max_statements hs (NumberOption 0) None (Node ''Program'' [function_of []]) = [] \<and>
     map (\<lambda>r. (c_complexity r, c_max r))
       (complexity h (NumberOption 0) (in_program (only_return (named_function ''f'')))) =
       [(Num 0, Num 0)]"
  by (simp add: complexity_def threshold_of_def in_program_def only_return_def
        c_run_append c_initial_def empty_array_def
        onCodePathStart_def onCodePathEnd_def push0_def pop_def Let_def report_complexity_def
        unhandled_run ms_facts
        max_statements_def ms_initial_def function_of_def create_max_statements_def
        maxStatements_of_def startFunction_def countStatements_def add_to_last_def
        endFunction_def array_length_def reportIfTooManyStatements_def Program_exit_def)

text \<open>
  The threshold \<open>create\<close> computes from an option object is
  \<open>option.maximum || option.max\<close>: the property \<open>maximum\<close> unless it is \<open>0\<close>, and
  otherwise the property \<open>max\<close>, which may be absent.
\<close>

lemma record_option_threshold:
  "threshold_of (ObjectOption (Some n) m v) = (if n \<noteq> 0 then Num n else property m) \<and>
   threshold_of (ObjectOption None (Some n) v) = Num n \<and>
   threshold_of (ObjectOption None None v) = Num 20 \<and>
   maxStatements_of (ObjectOption (Some n) m v) = (if n \<noteq> 0 then Num n else property m) \<and>
   maxStatements_of (ObjectOption None (Some n) v) = Num n \<and>
   maxStatements_of (ObjectOption None None v) = Num 10"
  by (simp add: threshold_of_def maxStatements_of_def js_or_def THRESHOLD_DEFAULT_def)

text \<open>
  The object \<open>{max: n}\<close> is equivalent to the integer \<open>n\<close> for every \<open>n\<close>, and the
  object \<open>{maximum: n}\<close> for every \<open>n > 0\<close>.
\<close>

lemma record_option_equivalent:
  "complexity h (ObjectOption None (Some n) v) es = complexity h (NumberOption n) es \<and>
   complexity_lib h (ObjectOption None (Some n) v) es = complexity_lib h (NumberOption n) es \<and>
   max_statements hs (ObjectOption None (Some n) v) o1 p =
     max_statements hs (NumberOption n) o1 p \<and>
   (n \<noteq> 0 \<longrightarrow>
      complexity h (ObjectOption (Some n) None v) es = complexity h (NumberOption n) es \<and>
      complexity_lib h (ObjectOption (Some n) None v) es =
        complexity_lib h (NumberOption n) es \<and>
      max_statements hs (ObjectOption (Some n) None v) o1 p =
        max_statements hs (NumberOption n) o1 p)"
  by (simp add: complexity_def complexity_lib_def max_statements_def create_max_statements_def
        threshold_of_def maxStatements_of_def js_or_def)

text \<open>
  Claim C6.  The object \<open>{maximum: 0}\<close> is not equivalent to the integer \<open>0\<close>:
  \<open>0 || undefined\<close> is \<open>undefined\<close>, and no score is greater than \<open>undefined\<close>.  With
  \<open>{maximum: 0}\<close> the complexity rule (both files) does not report
  \<open>function f() { return true; }\<close> and the statement counter does not report
  \<open>function f() { a; }\<close>; with the integer \<open>0\<close> both are reported.
\<close>

theorem record_maximum_zero:
  "\<forall>h hs.
     complexity h (ObjectOption (Some 0) None None)
        (in_program (only_return (named_function ''f''))) = [] \<and>
     map c_complexity (complexity h (NumberOption 0)
        (in_program (only_return (named_function ''f'')))) = [Num 0] \<and>
     complexity_lib h (ObjectOption (Some 0) None None)
        (in_program (only_return (named_function ''f''))) = [] \<and>
     map c_complexity (complexity_lib h (NumberOption 0)
        (in_program (only_return (named_function ''f'')))) = [Num 0] \<and>
     max_statements hs (ObjectOption (Some 0) None None) None
        (Node ''Program'' [function_of [stmt]]) = [] \<and>
     map ms_count (max_statements hs (NumberOption 0) None
        (Node ''Program'' [function_of [stmt]])) = [Num 1]"
  by (simp add: complexity_def complexity_lib_def threshold_of_def js_or_def
        in_program_def only_return_def
        c_run_append c_run_lib_append c_initial_def empty_array_def
        onCodePathStart_def onCodePathEnd_def onCodePathStart_lib_def onCodePathEnd_lib_def
        push0_def pop_def Let_def report_complexity_def unhandled_run ms_facts
        max_statements_def ms_initial_def function_of_def stmt_def create_max_statements_def
        maxStatements_of_def startFunction_def countStatements_def add_to_last_def
        endFunction_def array_length_def reportIfTooManyStatements_def Program_exit_def)

end
